theory Spec2Isabelle
  imports Complex_Main
begin

section \<open>JavaScript values used by the controllers\<close>

text \<open>
  Strings are lists of characters. The model covers ASCII text: \<open>trim\<close> and the
  regular-expression class \<open>\s\<close> strip the six ASCII white-space characters, and
  \<open>toLowerCase\<close> folds the letters A to Z.
\<close>

definition isWhiteSpace :: "char \<Rightarrow> bool" where
  "isWhiteSpace c = (c \<in> set [CHR 0x09, CHR 0x0A, CHR 0x0B, CHR 0x0C, CHR 0x0D, CHR '' ''])"

definition trim :: "string \<Rightarrow> string" where
  "trim s = rev (dropWhile isWhiteSpace (rev (dropWhile isWhiteSpace s)))"

definition toLowerChar :: "char \<Rightarrow> char" where
  "toLowerChar c =
     (case map_of (zip ''ABCDEFGHIJKLMNOPQRSTUVWXYZ'' ''abcdefghijklmnopqrstuvwxyz'') c of
        Some l \<Rightarrow> l
      | None \<Rightarrow> c)"

definition toLowerCase :: "string \<Rightarrow> string" where
  "toLowerCase s = map toLowerChar s"

fun startsWith :: "string \<Rightarrow> string \<Rightarrow> bool" where
  "startsWith s [] = True"
| "startsWith [] (p # ps) = False"
| "startsWith (x # xs) (p # ps) = (x = p \<and> startsWith xs ps)"

text \<open>\<open>s.includes(p)\<close>: \<open>p\<close> occurs in \<open>s\<close> as a contiguous substring.\<close>

fun includesStr :: "string \<Rightarrow> string \<Rightarrow> bool" where
  "includesStr [] p = (p = [])"
| "includesStr (x # xs) p = (startsWith (x # xs) p \<or> includesStr xs p)"

text \<open>\<open>s.split(c)\<close> for a one-character separator; the empty string gives one empty piece.\<close>

fun splitOn :: "char \<Rightarrow> string \<Rightarrow> string list" where
  "splitOn c [] = [[]]"
| "splitOn c (x # xs) =
     (if x = c then [] # splitOn c xs
      else (case splitOn c xs of
              [] \<Rightarrow> [[x]]
            | p # ps \<Rightarrow> (x # p) # ps))"

text \<open>
  \<open>s.split(/\s{2,}/)\<close>: a maximal run of two or more white-space characters separates
  two pieces; a single white-space character stays inside its piece. \<open>cur\<close> is the
  piece being read and \<open>pend\<close> the white-space run just read, both reversed.
\<close>

fun splitSpaces :: "string \<Rightarrow> string \<Rightarrow> string \<Rightarrow> string list" where
  "splitSpaces cur pend [] =
     (if 2 \<le> length pend then [rev cur, []] else [rev (pend @ cur)])"
| "splitSpaces cur pend (x # xs) =
     (if isWhiteSpace x then splitSpaces cur (x # pend) xs
      else if 2 \<le> length pend then rev cur # splitSpaces [x] [] xs
      else splitSpaces (x # pend @ cur) [] xs)"

subsection \<open>Numbers and \<open>parseFloat\<close>\<close>

text \<open>
  A JavaScript number is NaN, an infinity or a finite value. A finite value is kept as
  the exact rational that its decimal literal denotes; rounding to binary64 is not
  modelled.
\<close>

datatype jsnum = NaN | PosInfinity | NegInfinity | Num rat

fun Math_abs :: "jsnum \<Rightarrow> jsnum" where
  "Math_abs NaN = NaN"
| "Math_abs PosInfinity = PosInfinity"
| "Math_abs NegInfinity = PosInfinity"
| "Math_abs (Num x) = Num (abs x)"

fun negate :: "jsnum \<Rightarrow> jsnum" where
  "negate NaN = NaN"
| "negate PosInfinity = NegInfinity"
| "negate NegInfinity = PosInfinity"
| "negate (Num x) = Num (- x)"

definition isNaN :: "jsnum \<Rightarrow> bool" where
  "isNaN x = (x = NaN)"

definition isDigit :: "char \<Rightarrow> bool" where
  "isDigit c = (c \<in> set ''0123456789'')"

definition digitsValue :: "string \<Rightarrow> nat" where
  "digitsValue ds = foldl (\<lambda>a c. 10 * a + (of_char c - 48)) 0 ds"

definition scale10 :: "rat \<Rightarrow> int \<Rightarrow> rat" where
  "scale10 x e = (if 0 \<le> e then x * 10 ^ nat e else x / 10 ^ nat (- e))"

text \<open>
  The exponent part \<open>e\<close>, \<open>e+\<close> or \<open>e-\<close> followed by at least one digit; anything
  else is not part of the literal and counts as exponent 0.
\<close>

definition exponentPart :: "string \<Rightarrow> int" where
  "exponentPart r =
     (case r of
        [] \<Rightarrow> 0
      | c # r1 \<Rightarrow>
          if c = CHR ''e'' \<or> c = CHR ''E'' then
            (case r1 of
               [] \<Rightarrow> 0
             | s # r2 \<Rightarrow>
                 if s = CHR ''+'' then int (digitsValue (takeWhile isDigit r2))
                 else if s = CHR ''-'' then
                   (if takeWhile isDigit r2 = [] then 0
                    else - int (digitsValue (takeWhile isDigit r2)))
                 else int (digitsValue (takeWhile isDigit r1)))
          else 0)"

text \<open>The longest prefix that is an unsigned decimal literal, or \<open>Infinity\<close>.\<close>

definition unsignedLiteral :: "string \<Rightarrow> jsnum" where
  "unsignedLiteral r =
     (if startsWith r ''Infinity'' then PosInfinity
      else
        (let ip = takeWhile isDigit r;
             r1 = dropWhile isDigit r;
             fp = (case r1 of [] \<Rightarrow> [] | c # r2 \<Rightarrow> if c = CHR ''.'' then takeWhile isDigit r2 else []);
             r3 = (case r1 of [] \<Rightarrow> [] | c # r2 \<Rightarrow> if c = CHR ''.'' then dropWhile isDigit r2 else r1)
         in if ip = [] \<and> fp = [] then NaN
            else Num (scale10 (of_nat (digitsValue (ip @ fp))) (exponentPart r3 - int (length fp)))))"

definition parseFloat :: "string \<Rightarrow> jsnum" where
  "parseFloat s =
     (case dropWhile isWhiteSpace s of
        [] \<Rightarrow> NaN
      | c # r \<Rightarrow>
          if c = CHR ''+'' then unsignedLiteral r
          else if c = CHR ''-'' then negate (unsignedLiteral r)
          else unsignedLiteral (c # r))"

subsection \<open>Dates\<close>

text \<open>
  \<open>new Date(s)\<close> is the host's date parser. The controllers only test the result for
  NaN and store it, so the parser is a parameter \<open>pd\<close> of the model: \<open>pd s\<close> is the time
  value in milliseconds since the epoch, or \<open>None\<close> for an Invalid Date.

  \<open>isoDateOnly\<close> is one such parser, used for the concrete examples: it accepts
  exactly the date-only form \<open>YYYY-MM-DD\<close> of the ECMAScript date-time string format,
  for a day that exists in the calendar, and reads it as midnight UTC.
\<close>

type_synonym timeval = int

definition daysFromCivil :: "int \<Rightarrow> int \<Rightarrow> int \<Rightarrow> int" where
  "daysFromCivil y m d =
     (let y1 = (if m \<le> 2 then y - 1 else y);
          era = y1 div 400;
          yoe = y1 - era * 400;
          doy = (153 * (if 2 < m then m - 3 else m + 9) + 2) div 5 + d - 1;
          doe = yoe * 365 + yoe div 4 - yoe div 100 + doy
      in era * 146097 + doe - 719468)"

definition daysInMonth :: "int \<Rightarrow> int \<Rightarrow> int" where
  "daysInMonth y m =
     (if m = 2 then (if y mod 4 = 0 \<and> (0 < y mod 100 \<or> y mod 400 = 0) then 29 else 28)
      else if m = 4 \<or> m = 6 \<or> m = 9 \<or> m = 11 then 30
      else 31)"

definition isoDateOnly :: "string \<Rightarrow> timeval option" where
  "isoDateOnly s =
     (case s of
        [y1, y2, y3, y4, h1, m1, m2, h2, d1, d2] \<Rightarrow>
          if list_all isDigit [y1, y2, y3, y4, m1, m2, d1, d2] \<and> h1 = CHR ''-'' \<and> h2 = CHR ''-''
          then
            (let y = int (digitsValue [y1, y2, y3, y4]);
                 m = int (digitsValue [m1, m2]);
                 d = int (digitsValue [d1, d2])
             in if 1 \<le> m \<and> m \<le> 12 \<and> 1 \<le> d \<and> d \<le> daysInMonth y m
                then Some (daysFromCivil y m d * 86400000)
                else None)
          else None
      | _ \<Rightarrow> None)"

section \<open>The tabular import parser (\<open>parseTabularData\<close>)\<close>

record importedTransaction =
  it_userId :: string
  it_type :: string
  it_amount :: jsnum
  it_description :: string
  it_categoryName :: string
  it_date :: timeval
  it_isImported :: bool

text \<open>
  The fields of one line: split at commas if the line has one (each field trimmed and
  stripped of double quotes), else at tabs if it has one, else at runs of two or more
  white-space characters.
\<close>

definition lineParts :: "string \<Rightarrow> string list" where
  "lineParts line =
     (if CHR '','' \<in> set line
        then map (\<lambda>p. filter (\<lambda>c. c \<noteq> CHR 0x22) (trim p)) (splitOn CHR '','' line)
      else if CHR 0x09 \<in> set line
        then map trim (splitOn CHR 0x09 line)
      else map trim (splitSpaces [] [] line))"

text \<open>\<open>parts[2].replace(/[$,]/g, '')\<close>\<close>

definition amountStrOf :: "string \<Rightarrow> string" where
  "amountStrOf p = filter (\<lambda>c. c \<noteq> CHR ''$'' \<and> c \<noteq> CHR '','') p"

text \<open>\<open>parts[3] || 'Imported'\<close>: a missing or empty fourth field gives the fixed label.\<close>

definition categoryNameOf :: "string list \<Rightarrow> string" where
  "categoryNameOf parts =
     (if 4 \<le> length parts \<and> parts ! 3 \<noteq> [] then parts ! 3 else ''Imported'')"

definition inferType :: "string \<Rightarrow> string \<Rightarrow> string" where
  "inferType amountStr description =
     (if CHR ''-'' \<in> set amountStr \<or> includesStr (toLowerCase description) ''payment''
      then ''expense'' else ''income'')"

text \<open>
  The body of the loop for one line \<open>lines[i]\<close>: \<open>None\<close> when the line is skipped (by a
  \<open>continue\<close>, or because it has fewer than three fields), else the record pushed.
\<close>

definition parseLine :: "(string \<Rightarrow> timeval option) \<Rightarrow> string \<Rightarrow> string \<Rightarrow> importedTransaction option" where
  "parseLine pd userId raw =
     (let line = trim raw in
      if line = [] then None
      else
        (let parts = lineParts line in
         if 3 \<le> length parts then
           (let dateStr = parts ! 0;
                description = parts ! 1;
                amountStr = amountStrOf (parts ! 2);
                categoryName = categoryNameOf parts
            in case pd dateStr of
                 None \<Rightarrow> None
               | Some date \<Rightarrow>
                   (let amount = Math_abs (parseFloat amountStr) in
                    if isNaN amount \<or> amount = Num 0 then None
                    else Some \<lparr> it_userId = userId,
                                it_type = inferType amountStr description,
                                it_amount = amount,
                                it_description = trim description,
                                it_categoryName = trim categoryName,
                                it_date = date,
                                it_isImported = True \<rparr>))
         else None))"

text \<open>The loop over the lines after the header, pushing the accepted records in order.\<close>

fun parseRows :: "(string \<Rightarrow> timeval option) \<Rightarrow> string \<Rightarrow> string list \<Rightarrow> importedTransaction list" where
  "parseRows pd userId [] = []"
| "parseRows pd userId (l # ls) =
     (case parseLine pd userId l of
        None \<Rightarrow> parseRows pd userId ls
      | Some t \<Rightarrow> t # parseRows pd userId ls)"

definition textLines :: "string \<Rightarrow> string list" where
  "textLines text = filter (\<lambda>line. trim line \<noteq> []) (splitOn CHR 0x0A text)"

definition parseTabularData :: "(string \<Rightarrow> timeval option) \<Rightarrow> string \<Rightarrow> string \<Rightarrow> importedTransaction list" where
  "parseTabularData pd text userId = parseRows pd userId (drop 1 (textLines text))"

section \<open>The category store\<close>

text \<open>
  A category document. Ids stand for ObjectIds; a shared default category has
  \<open>cat_isDefault\<close> set and no owner. The store is the collection in its natural
  (insertion) order, and \<open>findOne\<close> returns the first document that satisfies the filter.
\<close>

record category =
  cat_id :: nat
  cat_name :: string
  cat_type :: string
  cat_userId :: "string option"
  cat_isDefault :: bool
  cat_color :: "string option"
  cat_icon :: "string option"

type_synonym categoryStore = "category list"

text \<open>The scope filter \<open>$or: [{ userId: req.user.id }, { isDefault: true }]\<close>.\<close>

definition inScope :: "string \<Rightarrow> category \<Rightarrow> bool" where
  "inScope uid c = (cat_userId c = Some uid \<or> cat_isDefault c)"

definition findOne :: "(category \<Rightarrow> bool) \<Rightarrow> categoryStore \<Rightarrow> category option" where
  "findOne flt store = find flt store"

definition freshId :: "categoryStore \<Rightarrow> nat" where
  "freshId store = Suc (fold max (map cat_id store) 0)"

text \<open>
  Modelled from the spec: the Category model (models/Category.js) is not among the
  sources. \<open>CategoryStore.create(fields) -> Category\<close> stores a new document with the
  given fields under a fresh id and returns it; the document is owned by the user and is
  not a shared default.
\<close>

definition Category_create ::
  "string \<Rightarrow> string \<Rightarrow> string option \<Rightarrow> string option \<Rightarrow> string \<Rightarrow> categoryStore \<Rightarrow> category \<times> categoryStore" where
  "Category_create name type color icon uid store =
     (let c = \<lparr> cat_id = freshId store, cat_name = name, cat_type = type,
                 cat_userId = Some uid, cat_isDefault = False,
                 cat_color = color, cat_icon = icon \<rparr>
      in (c, store @ [c]))"

subsection \<open>Regular expressions\<close>

text \<open>
  \<open>new RegExp(source, 'i')\<close> is the host's regular-expression constructor. It is a
  parameter \<open>rx\<close> of the model: \<open>rx source\<close> is \<open>None\<close> when the constructor throws a
  SyntaxError, else the predicate that tells which strings the expression matches.
  The controllers build the source from the name hint without escaping it:
  \<open>new RegExp(`^${name}$`, 'i')\<close>.
\<close>

type_synonym regExp = "string \<Rightarrow> (string \<Rightarrow> bool) option"

definition nameSource :: "string \<Rightarrow> string" where
  "nameSource name = ''^'' @ name @ ''$''"

text \<open>
  \<open>simpleRegExp\<close> is one such constructor, used for the concrete examples. It accepts
  the sources \<open>^body$\<close> whose body is a sequence of ordinary characters, each optionally
  followed by one of the quantifiers \<open>?\<close>, \<open>*\<close> and \<open>+\<close>, and matches them against the
  whole string without regard to the case of ASCII letters. Every other source is
  left out (\<open>None\<close>).
\<close>

datatype quantifier = Once | ZeroOrOne | ZeroOrMore | OneOrMore

definition syntaxChar :: "char \<Rightarrow> bool" where
  "syntaxChar c = (c \<in> set [CHR ''^'', CHR ''$'', CHR 0x5C, CHR ''.'', CHR ''*'', CHR ''+'', CHR ''?'',
                            CHR ''('', CHR '')'', CHR ''['', CHR '']'', CHR ''{'', CHR ''}'', CHR ''|''])"

definition quantifierOf :: "char \<Rightarrow> quantifier option" where
  "quantifierOf c =
     (if c = CHR ''?'' then Some ZeroOrOne
      else if c = CHR ''*'' then Some ZeroOrMore
      else if c = CHR ''+'' then Some OneOrMore
      else None)"

fun parseAtoms :: "string \<Rightarrow> (char \<times> quantifier) list option" where
  "parseAtoms [] = Some []"
| "parseAtoms [c] = (if syntaxChar c then None else Some [(c, Once)])"
| "parseAtoms (c # q # r) =
     (if syntaxChar c then None
      else (case quantifierOf q of
              Some qu \<Rightarrow> map_option (\<lambda>as. (c, qu) # as) (parseAtoms r)
            | None \<Rightarrow> map_option (\<lambda>as. (c, Once) # as) (parseAtoms (q # r))))"

definition sameLetter :: "char \<Rightarrow> char \<Rightarrow> bool" where
  "sameLetter a b = (toLowerChar a = toLowerChar b)"

fun matchAtoms :: "(char \<times> quantifier) list \<Rightarrow> string \<Rightarrow> bool" where
  "matchAtoms [] s = (s = [])"
| "matchAtoms ((c, Once) # as) [] = False"
| "matchAtoms ((c, Once) # as) (x # xs) = (sameLetter c x \<and> matchAtoms as xs)"
| "matchAtoms ((c, ZeroOrOne) # as) [] = matchAtoms as []"
| "matchAtoms ((c, ZeroOrOne) # as) (x # xs) =
     (matchAtoms as (x # xs) \<or> (sameLetter c x \<and> matchAtoms as xs))"
| "matchAtoms ((c, ZeroOrMore) # as) [] = matchAtoms as []"
| "matchAtoms ((c, ZeroOrMore) # as) (x # xs) =
     (matchAtoms as (x # xs) \<or> (sameLetter c x \<and> matchAtoms ((c, ZeroOrMore) # as) xs))"
| "matchAtoms ((c, OneOrMore) # as) [] = False"
| "matchAtoms ((c, OneOrMore) # as) (x # xs) =
     (sameLetter c x \<and> matchAtoms ((c, ZeroOrMore) # as) xs)"

definition simpleRegExp :: regExp where
  "simpleRegExp source =
     (case source of
        [] \<Rightarrow> None
      | c # rest \<Rightarrow>
          if c = CHR ''^'' \<and> rest \<noteq> [] \<and> last rest = CHR ''$''
          then map_option matchAtoms (parseAtoms (butlast rest))
          else None)"

section \<open>Transactions\<close>

text \<open>
  The receipt sub-document of a transaction and the fields handed to
  \<open>Transaction.create\<close>. A date is either the string of the request body, stored as it
  is, or a Date object (\<open>None\<close> inside for an Invalid Date).
\<close>

datatype dateValue = DateString string | DateObject "timeval option"

record receipt =
  r_filename :: string
  r_originalName :: string
  r_mimetype :: string
  r_size :: nat
  r_path :: "string"
  r_storeName :: "string option"
  r_total :: "jsnum option"
  r_ocrEngine :: "string option"
  r_needsReview :: bool

record transactionData =
  tx_userId :: string
  tx_type :: "string option"
  tx_amount :: jsnum
  tx_description :: "string option"
  tx_categoryId :: nat
  tx_date :: dateValue
  tx_paymentMethod :: "string option"
  tx_notes :: "string option"
  tx_currency :: string
  tx_isImported :: bool
  tx_receipt :: "receipt option"

type_synonym transactionStore = "transactionData list"

text \<open>
  Modelled from the spec: the Transaction model (models/Transaction.js) is not among
  the sources. \<open>TransactionStore.create(fields) -> Transaction\<close> and
  \<open>bulkInsert(fields[]) -> Transaction[]\<close> store the given fields as they are.
\<close>

definition Transaction_create :: "transactionData \<Rightarrow> transactionStore \<Rightarrow> transactionData \<times> transactionStore" where
  "Transaction_create d txs = (d, txs @ [d])"

definition Transaction_insertMany :: "transactionData list \<Rightarrow> transactionStore \<Rightarrow> transactionData list \<times> transactionStore" where
  "Transaction_insertMany ds txs = (ds, txs @ ds)"

section \<open>Transaction history import (\<open>uploadTransactionHistory\<close>)\<close>

text \<open>
  Find-or-create of the category of one imported record (the body of the \<open>try\<close> in the
  loop): a match on the name in the owner-or-default scope, of any type, else a new
  category with the record's category name and type. \<open>Inl\<close> is the message of the
  exception that the \<open>catch\<close> of the loop receives.
\<close>

definition resolveImportCategory ::
  "regExp \<Rightarrow> string \<Rightarrow> importedTransaction \<Rightarrow> categoryStore \<Rightarrow> string + (category \<times> categoryStore)" where
  "resolveImportCategory rx uid t cats =
     (case rx (nameSource (it_categoryName t)) of
        None \<Rightarrow> Inl ''Invalid regular expression''
      | Some m \<Rightarrow>
          (case findOne (\<lambda>c. m (cat_name c) \<and> inScope uid c) cats of
             Some c \<Rightarrow> Inr (c, cats)
           | None \<Rightarrow> Inr (Category_create (it_categoryName t) (it_type t) None None uid cats)))"

text \<open>\<open>{ ...transactionData, categoryId: category._id }\<close> without \<open>categoryName\<close>.\<close>

definition finalTransactionData :: "importedTransaction \<Rightarrow> category \<Rightarrow> transactionData" where
  "finalTransactionData t c =
     \<lparr> tx_userId = it_userId t, tx_type = Some (it_type t), tx_amount = it_amount t,
       tx_description = Some (it_description t), tx_categoryId = cat_id c,
       tx_date = DateObject (Some (it_date t)), tx_paymentMethod = None, tx_notes = None,
       tx_currency = [], tx_isImported = it_isImported t, tx_receipt = None \<rparr>"

record importState =
  is_processed :: "transactionData list"
  is_errors :: "(importedTransaction \<times> string) list"
  is_categories :: categoryStore

fun processTransactions :: "regExp \<Rightarrow> string \<Rightarrow> importedTransaction list \<Rightarrow> importState \<Rightarrow> importState" where
  "processTransactions rx uid [] st = st"
| "processTransactions rx uid (t # ts) st =
     (case resolveImportCategory rx uid t (is_categories st) of
        Inl msg \<Rightarrow>
          processTransactions rx uid ts (st \<lparr> is_errors := is_errors st @ [(t, msg)] \<rparr>)
      | Inr (c, cats) \<Rightarrow>
          processTransactions rx uid ts
            (st \<lparr> is_processed := is_processed st @ [finalTransactionData t c],
                  is_categories := cats \<rparr>))"

record importResponse =
  ir_imported :: nat
  ir_errorCount :: nat
  ir_transactions :: "transactionData list"
  ir_errors :: "(importedTransaction \<times> string) list"

text \<open>
  The handler on the text of the uploaded file: \<open>Inl\<close> is the message of the 500
  response, \<open>Inr\<close> the data of the 201 response with the stores after the request.
\<close>

definition uploadTransactionHistory ::
  "(string \<Rightarrow> timeval option) \<Rightarrow> regExp \<Rightarrow> string \<Rightarrow> string \<Rightarrow> string \<Rightarrow> categoryStore \<Rightarrow> transactionStore
     \<Rightarrow> string + (importResponse \<times> categoryStore \<times> transactionStore)" where
  "uploadTransactionHistory pd rx uid fileType extractedText cats txs =
     (if fileType = ''application/pdf''
      then Inl ''PDF table extraction not yet implemented. Please export your data as CSV format and upload that instead.''
      else
        (let transactions = parseTabularData pd extractedText uid in
         if length transactions = 0 then Inl ''No valid transactions found in the uploaded file''
         else
           (let st = processTransactions rx uid transactions
                       \<lparr> is_processed = [], is_errors = [], is_categories = cats \<rparr>;
                (saved, txs') = (if 0 < length (is_processed st)
                                 then Transaction_insertMany (is_processed st) txs
                                 else ([], txs))
            in Inr (\<lparr> ir_imported = length saved, ir_errorCount = length (is_errors st),
                       ir_transactions = saved, ir_errors = is_errors st \<rparr>,
                    is_categories st, txs'))))"

section \<open>Receipt extraction\<close>

text \<open>
  The data that an OCR service returns for a receipt (the fields the controllers read).
\<close>

record extractedData =
  ed_storeName :: "string option"
  ed_date :: "string option"
  ed_total :: "jsnum option"
  ed_engine :: "string option"
  ed_ocrEngine :: "string option"
  ed_needsReview :: bool
  ed_items :: "string list option"

text \<open>
  The two OCR services are outside the controllers. One call of a service throws an
  error with a message, returns extracted data, or returns \<open>null\<close>. A failure to read
  the file before the call of Textract counts as \<open>Threw\<close>. The environment \<open>ocrEnv\<close>
  fixes what a call of each service does during the request; no service is called
  twice.
\<close>

datatype ocrService = tesseractOcrService | textractOcrService

datatype engineOutcome = Threw string | Returned extractedData | ReturnedNull

text \<open>The message of the TypeError that reading a property of \<open>null\<close> or \<open>undefined\<close> throws.\<close>

definition typeErrorMessage :: "string \<Rightarrow> string \<Rightarrow> string" where
  "typeErrorMessage val prop =
     ''Cannot read properties of '' @ val @ '' (reading '' @ [CHR 0x27] @ prop @ [CHR 0x27] @ '')''"

record ocrEnv =
  textract :: engineOutcome
  tesseract :: engineOutcome

text \<open>
  The state of the extraction step: the services called so far, in order, and the
  variables \<open>extractedData\<close>, \<open>processingError\<close> and \<open>ocrService\<close> of the handler.
\<close>

record ocrResult =
  calls :: "ocrService list"
  extracted :: "extractedData option"
  processingError :: "string option"
  service :: "ocrService option"

text \<open>\<open>const { ocrEngine = 'textract' } = req.body\<close>\<close>

definition ocrEngineOf :: "string option \<Rightarrow> string" where
  "ocrEngineOf hint = (case hint of None \<Rightarrow> ''textract'' | Some e \<Rightarrow> e)"

definition invoke :: "ocrEnv \<Rightarrow> ocrService \<Rightarrow> engineOutcome" where
  "invoke env s = (case s of tesseractOcrService \<Rightarrow> tesseract env | textractOcrService \<Rightarrow> textract env)"

text \<open>
  The \<open>catch\<close> block shared by \<open>extractReceiptData\<close> (lines 189-206) and \<open>uploadReceipt\<close>
  (lines 320-338): the fallback to Tesseract runs when the request named \<open>textract\<close>.
  A fallback that returns \<open>null\<close> throws nothing: the pending error is cleared and no
  data are there.
\<close>

definition fallbackAfterError :: "string \<Rightarrow> ocrEnv \<Rightarrow> ocrService \<Rightarrow> string \<Rightarrow> ocrResult" where
  "fallbackAfterError ocrEngine env primary msg =
     (if ocrEngine = ''textract'' then
        (case invoke env tesseractOcrService of
           Returned d \<Rightarrow>
             \<lparr> calls = [primary, tesseractOcrService], extracted = Some d,
               processingError = None, service = Some primary \<rparr>
         | ReturnedNull \<Rightarrow>
             \<lparr> calls = [primary, tesseractOcrService], extracted = None,
               processingError = None, service = Some primary \<rparr>
         | Threw msg2 \<Rightarrow>
             \<lparr> calls = [primary, tesseractOcrService], extracted = None,
               processingError =
                 Some (''Primary OCR failed: '' @ msg @ ''. Fallback also failed: '' @ msg2),
               service = Some primary \<rparr>)
      else \<lparr> calls = [primary], extracted = None, processingError = Some msg,
             service = Some primary \<rparr>)"

text \<open>
  The \<open>try\<close> block of the two handlers after the choice of the primary service. When
  the primary call returns \<open>null\<close>, the statement that logs \<open>extractedData.ocrEngine\<close>
  throws a TypeError inside the \<open>try\<close>.
\<close>

definition runPrimary :: "string \<Rightarrow> ocrEnv \<Rightarrow> ocrService \<Rightarrow> ocrResult" where
  "runPrimary ocrEngine env primary =
     (case invoke env primary of
        Returned d \<Rightarrow>
          \<lparr> calls = [primary], extracted = Some d, processingError = None,
            service = Some primary \<rparr>
      | Threw msg \<Rightarrow> fallbackAfterError ocrEngine env primary msg
      | ReturnedNull \<Rightarrow>
          fallbackAfterError ocrEngine env primary (typeErrorMessage ''null'' ''ocrEngine''))"

text \<open>The extraction step of \<open>extractReceiptData\<close> (lines 150-206).\<close>

definition extractReceiptData_ocr :: "string option \<Rightarrow> ocrEnv \<Rightarrow> ocrResult" where
  "extractReceiptData_ocr hint env =
     (let ocrEngine = ocrEngineOf hint in
      if ocrEngine = ''tesseract'' then runPrimary ocrEngine env tesseractOcrService
      else runPrimary ocrEngine env textractOcrService)"

text \<open>
  The response of \<open>extractReceiptData\<close>: the extracted data when there is some and no
  error is pending, else the error with the offer of manual entry. A JavaScript
  string is falsy when it is empty.
\<close>

definition truthyString :: "string option \<Rightarrow> bool" where
  "truthyString s = (case s of None \<Rightarrow> False | Some t \<Rightarrow> t \<noteq> [])"

datatype extractResponse =
  ExtractSuccess extractedData
| ExtractFailed "string option"

definition extractReceiptData :: "string option \<Rightarrow> ocrEnv \<Rightarrow> ocrService list \<times> extractResponse" where
  "extractReceiptData hint env =
     (let res = extractReceiptData_ocr hint env in
      case extracted res of
        Some d \<Rightarrow>
          if truthyString (processingError res) then (calls res, ExtractFailed (processingError res))
          else (calls res, ExtractSuccess d)
      | None \<Rightarrow> (calls res, ExtractFailed (processingError res)))"

text \<open>
  The extraction step of \<open>uploadReceipt\<close> (lines 277-341). It runs when \<open>autoProcess\<close>
  is the string \<open>true\<close> (the default); the service is chosen with the constant
  \<open>forceOcrEngine\<close>.
\<close>

definition forceOcrEngine :: string where
  "forceOcrEngine = ''textract''"

definition chooseService :: "string \<Rightarrow> ocrService" where
  "chooseService ocrEngine =
     (if forceOcrEngine = ''tesseract'' \<or> ocrEngine = ''tesseract'' then tesseractOcrService
      else if forceOcrEngine = ''textract'' \<or> ocrEngine = ''textract'' then textractOcrService
      else textractOcrService)"

definition autoProcessOf :: "string option \<Rightarrow> string" where
  "autoProcessOf a = (case a of None \<Rightarrow> ''true'' | Some v \<Rightarrow> v)"

definition uploadReceipt_ocr :: "string option \<Rightarrow> string option \<Rightarrow> ocrEnv \<Rightarrow> ocrResult" where
  "uploadReceipt_ocr autoProcess hint env =
     (let ocrEngine = ocrEngineOf hint in
      if autoProcessOf autoProcess = ''true''
      then runPrimary ocrEngine env (chooseService ocrEngine)
      else \<lparr> calls = [], extracted = None, processingError = None, service = None \<rparr>)"

text \<open>
  \<open>processUploadedReceipt\<close> (lines 474-540) on a stored receipt; \<open>fileExists\<close> is
  \<open>fs.existsSync(receiptPath)\<close>. An error that a service throws goes to the \<open>catch\<close> of
  the handler, which answers 500 with its message. The fallback to Tesseract runs
  only after a Textract call that returned no data, for the hint \<open>textract\<close>. The
  response reads the extracted data, among them \<open>extractedData.items.length\<close>, and so
  throws a TypeError for missing data or a missing items array.
\<close>

datatype processResponse =
  ReceiptNotFound404
| Processed extractedData
| ProcessFailed500 string

definition processedResponse :: "extractedData option \<Rightarrow> processResponse" where
  "processedResponse data =
     (case data of
        None \<Rightarrow> ProcessFailed500 (typeErrorMessage ''null'' ''storeName'')
      | Some d \<Rightarrow>
          if ed_items d = None then ProcessFailed500 (typeErrorMessage ''undefined'' ''length'')
          else Processed d)"

definition processUploadedReceipt ::
  "bool \<Rightarrow> string option \<Rightarrow> ocrEnv \<Rightarrow> ocrService list \<times> processResponse" where
  "processUploadedReceipt fileExists hint env =
     (if fileExists then
        (let ocrEngine = ocrEngineOf hint;
             primary = (if ocrEngine = ''tesseract'' then tesseractOcrService
                        else if ocrEngine = ''textract'' then textractOcrService
                        else textractOcrService)
         in case invoke env primary of
              Threw msg \<Rightarrow> ([primary], ProcessFailed500 msg)
            | Returned d \<Rightarrow> ([primary], processedResponse (Some d))
            | ReturnedNull \<Rightarrow>
                if ocrEngine = ''textract'' then
                  (case invoke env tesseractOcrService of
                     Threw msg \<Rightarrow> ([primary, tesseractOcrService], ProcessFailed500 msg)
                   | Returned d \<Rightarrow>
                       ([primary, tesseractOcrService], processedResponse (Some d))
                   | ReturnedNull \<Rightarrow>
                       ([primary, tesseractOcrService], processedResponse None))
                else ([primary], processedResponse None))
      else ([], ReceiptNotFound404))"

section \<open>Category resolution for receipts\<close>

text \<open>
  A JavaScript value of a request body that may be a number or a string, with its
  truthiness and what \<open>parseFloat\<close> makes of it (a number is first written as a string
  and then read back).
\<close>

datatype jsval = Undefined | NumberVal jsnum | StringVal string

fun truthy :: "jsval \<Rightarrow> bool" where
  "truthy Undefined = False"
| "truthy (NumberVal n) = (n \<noteq> NaN \<and> n \<noteq> Num 0)"
| "truthy (StringVal s) = (s \<noteq> [])"

fun parseFloatVal :: "jsval \<Rightarrow> jsnum" where
  "parseFloatVal Undefined = NaN"
| "parseFloatVal (NumberVal n) = n"
| "parseFloatVal (StringVal s) = parseFloat s"

text \<open>
  The category that the hints of the request select (\<open>uploadReceipt\<close> lines 349-363,
  \<open>createTransactionFromReceipt\<close> lines 563-577): by name, among the expense and
  both-typed categories in scope, when a name and no id is given; by id, among all
  categories in scope, when an id is given. \<open>Inl\<close> is a thrown SyntaxError.
\<close>

definition hintedCategory ::
  "regExp \<Rightarrow> string option \<Rightarrow> nat option \<Rightarrow> string \<Rightarrow> categoryStore \<Rightarrow> string + category option" where
  "hintedCategory rx categoryName categoryId uid cats =
     (if truthyString categoryName \<and> categoryId = None then
        (case rx (nameSource (case categoryName of None \<Rightarrow> [] | Some n \<Rightarrow> n)) of
           None \<Rightarrow> Inl ''Invalid regular expression''
         | Some m \<Rightarrow>
             Inr (findOne (\<lambda>c. m (cat_name c) \<and> inScope uid c
                               \<and> cat_type c \<in> set [''expense'', ''both'']) cats))
      else
        (case categoryId of
           Some i \<Rightarrow> Inr (findOne (\<lambda>c. cat_id c = i \<and> inScope uid c) cats)
         | None \<Rightarrow> Inr None))"

text \<open>
  Find-or-create (\<open>uploadReceipt\<close> lines 346-383, \<open>createTransactionFromReceipt\<close> lines
  560-597; the two differ in the list of default names only): the hinted category,
  else the first category in scope of type expense or both whose name is one of the
  default names, else a new category \<open>Other Expenses\<close> of type expense for the user.
\<close>

definition resolveReceiptCategory ::
  "regExp \<Rightarrow> string list \<Rightarrow> string option \<Rightarrow> nat option \<Rightarrow> string \<Rightarrow> categoryStore
     \<Rightarrow> string + (category \<times> categoryStore)" where
  "resolveReceiptCategory rx defaultNames categoryName categoryId uid cats =
     (case hintedCategory rx categoryName categoryId uid cats of
        Inl e \<Rightarrow> Inl e
      | Inr (Some c) \<Rightarrow> Inr (c, cats)
      | Inr None \<Rightarrow>
          (case findOne (\<lambda>c. cat_name c \<in> set defaultNames \<and> inScope uid c
                              \<and> cat_type c \<in> set [''expense'', ''both'']) cats of
             Some c \<Rightarrow> Inr (c, cats)
           | None \<Rightarrow>
               Inr (Category_create ''Other Expenses'' ''expense'' (Some ''#6366F1'')
                      (Some ''shopping-bag'') uid cats)))"

definition uploadReceiptDefaults :: "string list" where
  "uploadReceiptDefaults = [''Groceries'', ''Shopping'', ''Other Expenses'', ''Food & Dining'']"

definition createFromReceiptDefaults :: "string list" where
  "createFromReceiptDefaults = [''Groceries'', ''Shopping'', ''Other Expenses'']"

section \<open>Filing a receipt (\<open>uploadReceipt\<close>, \<open>createTransactionFromReceipt\<close>)\<close>

text \<open>
  \<open>generateTransactionData(extractedData, userId, categoryId)\<close> of the two OCR services
  is not among the sources. It is a parameter \<open>gen\<close> of the model, called without
  access to the stores: \<open>Inl\<close> when it throws, else the transaction fields it returns.
\<close>

type_synonym generator =
  "ocrService \<Rightarrow> extractedData \<Rightarrow> string \<Rightarrow> nat \<Rightarrow> string + transactionData"

record fileInfo =
  rf_filename :: string
  rf_originalName :: string
  rf_mimetype :: string
  rf_size :: nat
  rf_path :: string

text \<open>
  \<open>transactionData.receipt.filename = ...\<close> and the four assignments after it; they
  throw a TypeError when the generated fields have no receipt.
\<close>

definition attachFile :: "fileInfo \<Rightarrow> transactionData \<Rightarrow> string + transactionData" where
  "attachFile f d =
     (case tx_receipt d of
        None \<Rightarrow> Inl ''TypeError''
      | Some r \<Rightarrow>
          Inr (d \<lparr> tx_receipt := Some (r \<lparr> r_filename := rf_filename f,
                                            r_originalName := rf_originalName f,
                                            r_mimetype := rf_mimetype f,
                                            r_size := rf_size f,
                                            r_path := rf_path f \<rparr>) \<rparr>))"

record uploadReceiptRequest =
  ur_userId :: string
  ur_file :: fileInfo
  ur_categoryName :: "string option"
  ur_categoryId :: "nat option"
  ur_autoProcess :: "string option"
  ur_ocrEngine :: "string option"

text \<open>
  The \<open>try\<close> block of lines 345-415, up to the write. The stores are returned in both
  cases: a category created before a later statement throws stays created.
\<close>

definition autoFile ::
  "regExp \<Rightarrow> generator \<Rightarrow> uploadReceiptRequest \<Rightarrow> ocrService option \<Rightarrow> extractedData
     \<Rightarrow> categoryStore \<Rightarrow> transactionStore
     \<Rightarrow> (string + transactionData) \<times> categoryStore \<times> transactionStore" where
  "autoFile rx gen req svc d cats txs =
     (case resolveReceiptCategory rx uploadReceiptDefaults (ur_categoryName req)
             (ur_categoryId req) (ur_userId req) cats of
        Inl e \<Rightarrow> (Inl e, cats, txs)
      | Inr (c, cats') \<Rightarrow>
          (case gen (case svc of None \<Rightarrow> textractOcrService | Some s \<Rightarrow> s) d
                  (ur_userId req) (cat_id c) of
             Inl e \<Rightarrow> (Inl e, cats', txs)
           | Inr td \<Rightarrow>
               (case attachFile (ur_file req) td of
                  Inl e \<Rightarrow> (Inl e, cats', txs)
                | Inr td' \<Rightarrow>
                    (let (t, txs') = Transaction_create td' txs in (Inr t, cats', txs')))))"

text \<open>
  The response of \<open>uploadReceipt\<close>: 201 with the transaction after a successful write,
  else 200 with the extracted data and the pending error for manual review. The 201
  response is built inside the same \<open>try\<close> and reads \<open>extractedData.items.length\<close>: for
  data without an items array that throws after the write, and the handler answers
  with the review response.
\<close>

datatype uploadReceiptResponse =
  ReceiptFiled transactionData extractedData
| ReceiptForReview "extractedData option" "string option"

definition uploadReceipt ::
  "regExp \<Rightarrow> generator \<Rightarrow> uploadReceiptRequest \<Rightarrow> ocrEnv \<Rightarrow> categoryStore \<Rightarrow> transactionStore
     \<Rightarrow> ocrService list \<times> uploadReceiptResponse \<times> categoryStore \<times> transactionStore" where
  "uploadReceipt rx gen req env cats txs =
     (let res = uploadReceipt_ocr (ur_autoProcess req) (ur_ocrEngine req) env in
      case extracted res of
        None \<Rightarrow> (calls res, ReceiptForReview None (processingError res), cats, txs)
      | Some d \<Rightarrow>
          if truthyString (processingError res)
          then (calls res, ReceiptForReview (Some d) (processingError res), cats, txs)
          else
            (case autoFile rx gen req (service res) d cats txs of
               (Inr t, cats', txs') \<Rightarrow>
                 if ed_items d = None
                 then (calls res, ReceiptForReview (Some d) (processingError res), cats', txs')
                 else (calls res, ReceiptFiled t d, cats', txs')
             | (Inl e, cats', txs') \<Rightarrow>
                 (calls res, ReceiptForReview (Some d) (processingError res), cats', txs')))"

record overrides =
  ov_categoryName :: "string option"
  ov_categoryId :: "nat option"
  ov_amount :: jsval
  ov_description :: "string option"
  ov_date :: "string option"

record createFromReceiptRequest =
  cr_userId :: string
  cr_extractedData :: "extractedData option"
  cr_receiptInfo :: "fileInfo option"
  cr_overrides :: overrides

text \<open>\<open>extractedData.engine || extractedData.ocrEngine || 'textract'\<close> and the service for it.\<close>

definition extractedOcrEngine :: "extractedData \<Rightarrow> string" where
  "extractedOcrEngine d =
     (if truthyString (ed_engine d) then (case ed_engine d of None \<Rightarrow> [] | Some e \<Rightarrow> e)
      else if truthyString (ed_ocrEngine d) then (case ed_ocrEngine d of None \<Rightarrow> [] | Some e \<Rightarrow> e)
      else ''textract'')"

definition serviceOfExtracted :: "extractedData \<Rightarrow> ocrService" where
  "serviceOfExtracted d =
     (if extractedOcrEngine d = ''tesseract'' then tesseractOcrService
      else if extractedOcrEngine d = ''AWS Textract'' then textractOcrService
      else textractOcrService)"

text \<open>Lines 617-620: an override is applied when its value is truthy.\<close>

definition applyOverrides ::
  "(string \<Rightarrow> timeval option) \<Rightarrow> overrides \<Rightarrow> transactionData \<Rightarrow> transactionData" where
  "applyOverrides pd ov d =
     (let d1 = (if truthy (ov_amount ov) then d \<lparr> tx_amount := parseFloatVal (ov_amount ov) \<rparr> else d);
          d2 = (if truthyString (ov_description ov)
                then d1 \<lparr> tx_description := ov_description ov \<rparr> else d1)
      in if truthyString (ov_date ov)
         then d2 \<lparr> tx_date := DateObject (pd (case ov_date ov of None \<Rightarrow> [] | Some s \<Rightarrow> s)) \<rparr>
         else d2)"

datatype createResponse =
  Created201 transactionData
| BadRequest400 string
| NotFound404 string
| ServerError500 string

definition createTransactionFromReceipt ::
  "regExp \<Rightarrow> (string \<Rightarrow> timeval option) \<Rightarrow> generator \<Rightarrow> createFromReceiptRequest
     \<Rightarrow> categoryStore \<Rightarrow> transactionStore
     \<Rightarrow> createResponse \<times> categoryStore \<times> transactionStore" where
  "createTransactionFromReceipt rx pd gen req cats txs =
     (case (cr_extractedData req, cr_receiptInfo req) of
        (Some d, Some info) \<Rightarrow>
          (case resolveReceiptCategory rx createFromReceiptDefaults
                  (ov_categoryName (cr_overrides req)) (ov_categoryId (cr_overrides req))
                  (cr_userId req) cats of
             Inl e \<Rightarrow> (ServerError500 e, cats, txs)
           | Inr (c, cats') \<Rightarrow>
               (case gen (serviceOfExtracted d) d (cr_userId req) (cat_id c) of
                  Inl e \<Rightarrow> (ServerError500 e, cats', txs)
                | Inr td \<Rightarrow>
                    (case attachFile info (applyOverrides pd (cr_overrides req) td) of
                       Inl e \<Rightarrow> (ServerError500 e, cats', txs)
                     | Inr td' \<Rightarrow>
                         (let (t, txs') = Transaction_create td' txs
                          in (Created201 t, cats', txs')))))
      | _ \<Rightarrow> (BadRequest400 ''Extracted data and receipt info are required'', cats, txs))"

section \<open>Receipt files\<close>

text \<open>
  A path is absolute and given by its segments. The file system holds regular files
  (path to content); directories are implied, so that creating a directory only fails
  when a regular file stands where a directory is needed. I/O failures for other
  reasons (permissions, devices) are outside the model.
\<close>

type_synonym path = "string list"

type_synonym fileSystem = "path \<Rightarrow> string option"

datatype ioError = ENOENT | ENOTDIR

definition pathString :: "path \<Rightarrow> string" where
  "pathString p = concat (map (\<lambda>s. ''/'' @ s) p)"

text \<open>\<open>path.join\<close> normalises its result: \<open>.\<close> and empty segments vanish, \<open>..\<close> drops the segment before it.\<close>

fun normalizeAcc :: "path \<Rightarrow> path \<Rightarrow> path" where
  "normalizeAcc acc [] = rev acc"
| "normalizeAcc acc (s # ss) =
     (if s = ''..'' then normalizeAcc (tl acc) ss
      else if s = ''.'' \<or> s = [] then normalizeAcc acc ss
      else normalizeAcc (s # acc) ss)"

definition path_join :: "path \<Rightarrow> string list \<Rightarrow> path" where
  "path_join p segs = normalizeAcc [] (p @ segs)"

definition path_dirname :: "path \<Rightarrow> path" where
  "path_dirname p = butlast p"

text \<open>A regular file stands at the path or at one of its ancestors.\<close>

definition fileOnPath :: "fileSystem \<Rightarrow> path \<Rightarrow> bool" where
  "fileOnPath fs p = list_ex (\<lambda>n. fs (take n p) \<noteq> None) [1..<Suc (length p)]"

text \<open>
  \<open>if (!fs.existsSync(dir)) fs.mkdirSync(dir, { recursive: true })\<close> throws when an
  ancestor of \<open>dir\<close> is a regular file; when \<open>dir\<close> itself is one, the \<open>rename\<close> into it
  throws. Both end in the same \<open>catch\<close>.
\<close>

definition ensureDir :: "fileSystem \<Rightarrow> path \<Rightarrow> ioError + fileSystem" where
  "ensureDir fs dir = (if fileOnPath fs dir then Inl ENOTDIR else Inr fs)"

text \<open>
  \<open>fs.renameSync(src, dst)\<close>: throws when there is no file at \<open>src\<close>; else the file is at
  \<open>dst\<close> afterwards, replacing a file that was there, and no longer at \<open>src\<close>.
\<close>

definition renameSync :: "fileSystem \<Rightarrow> path \<Rightarrow> path \<Rightarrow> ioError + fileSystem" where
  "renameSync fs src dst =
     (case fs src of
        None \<Rightarrow> Inl ENOENT
      | Some content \<Rightarrow>
          if fileOnPath fs (path_dirname dst) then Inl ENOTDIR
          else Inr ((fs (src := None)) (dst := Some content)))"

record receiptFileInfo =
  fi_tempPath :: path
  fi_originalName :: string
  fi_mimetype :: string
  fi_size :: nat

text \<open>
  The \<open>try\<close> block of \<open>createTransaction\<close> (lines 106-143), which moves the temp file to
  the permanent directory and builds the receipt. \<open>permanentFilename\<close> is the name
  \<open>receipt-<Date.now()>-<random><extension>\<close> generated for this call, one path
  segment chosen by the environment. Of the receipt, the fields of the record
  \<open>receipt\<close> are kept; \<open>tax\<close>, \<open>subtotal\<close>, \<open>items\<close> and the time stamps are copied in the
  same way and are left out.
\<close>

definition promoteReceiptFile ::
  "fileSystem \<Rightarrow> string \<Rightarrow> receiptFileInfo \<Rightarrow> extractedData \<Rightarrow> ioError + (receipt \<times> fileSystem)" where
  "promoteReceiptFile fs permanentFilename info rd =
     (let tempPath = fi_tempPath info;
          permanentDir = path_join (path_dirname tempPath) [''..'', ''receipts'']
      in case ensureDir fs permanentDir of
           Inl e \<Rightarrow> Inl e
         | Inr fs1 \<Rightarrow>
             (let permanentPath = permanentDir @ [permanentFilename] in
              case renameSync fs1 tempPath permanentPath of
                Inl e \<Rightarrow> Inl e
              | Inr fs2 \<Rightarrow>
                  Inr (\<lparr> r_filename = permanentFilename,
                         r_originalName = fi_originalName info,
                         r_mimetype = fi_mimetype info,
                         r_size = fi_size info,
                         r_path = pathString permanentPath,
                         r_storeName = ed_storeName rd,
                         r_total = ed_total rd,
                         r_ocrEngine = ed_ocrEngine rd,
                         r_needsReview = ed_needsReview rd \<rparr>, fs2)))"

section \<open>Creating a transaction (\<open>createTransaction\<close>)\<close>

record createRequest =
  ct_userId :: string
  ct_userCurrency :: "string option"
  ct_type :: "string option"
  ct_amount :: jsnum
  ct_description :: "string option"
  ct_categoryId :: "nat option"
  ct_categoryName :: "string option"
  ct_category :: "string option"
  ct_date :: "string option"
  ct_paymentMethod :: "string option"
  ct_notes :: "string option"
  ct_currency :: "string option"
  ct_receiptFileInfo :: "receiptFileInfo option"
  ct_receiptData :: "extractedData option"

text \<open>\<open>categoryName || categoryField\<close>\<close>

definition providedCategoryName :: "createRequest \<Rightarrow> string option" where
  "providedCategoryName req =
     (if truthyString (ct_categoryName req) then ct_categoryName req else ct_category req)"

text \<open>
  Lines 35-74: the category by name (any type, in scope) when a name and no id is
  given, by id when an id is given; \<open>Inl\<close> is the response that ends the request.
\<close>

definition findRequestCategory ::
  "regExp \<Rightarrow> createRequest \<Rightarrow> categoryStore \<Rightarrow> createResponse + category" where
  "findRequestCategory rx req cats =
     (if truthyString (providedCategoryName req) \<and> ct_categoryId req = None then
        (case rx (nameSource (case providedCategoryName req of None \<Rightarrow> [] | Some n \<Rightarrow> n)) of
           None \<Rightarrow> Inl (ServerError500 ''Invalid regular expression'')
         | Some m \<Rightarrow>
             (case findOne (\<lambda>c. m (cat_name c) \<and> inScope (ct_userId req) c) cats of
                None \<Rightarrow>
                  Inl (NotFound404
                        (''Category '' @ [CHR 0x27]
                         @ (case providedCategoryName req of None \<Rightarrow> [] | Some n \<Rightarrow> n)
                         @ [CHR 0x27]
                         @ '' not found. Please create it first or use an existing category.''))
              | Some c \<Rightarrow> Inr c))
      else
        (case ct_categoryId req of
           Some i \<Rightarrow>
             (case findOne (\<lambda>c. cat_id c = i \<and> inScope (ct_userId req) c) cats of
                None \<Rightarrow> Inl (NotFound404 ''Category not found'')
              | Some c \<Rightarrow> Inr c)
         | None \<Rightarrow> Inl (BadRequest400 ''Either categoryId, categoryName, or category is required'')))"

text \<open>Line 77: \<open>category.type !== 'both' && category.type !== type\<close>\<close>

definition typeMismatch :: "category \<Rightarrow> string option \<Rightarrow> bool" where
  "typeMismatch c type = (cat_type c \<noteq> ''both'' \<and> Some (cat_type c) \<noteq> type)"

text \<open>
  Lines 85-97; \<open>now\<close> is the time of the request (\<open>new Date()\<close>). The fields \<open>tags\<close>
  and \<open>recurring\<close>, which are copied from the request like \<open>notes\<close>, are left out.
\<close>

definition firstTruthy :: "string option \<Rightarrow> string option \<Rightarrow> string \<Rightarrow> string" where
  "firstTruthy a b c =
     (if truthyString a then (case a of None \<Rightarrow> c | Some s \<Rightarrow> s)
      else if truthyString b then (case b of None \<Rightarrow> c | Some s \<Rightarrow> s)
      else c)"

definition baseTransactionData :: "createRequest \<Rightarrow> category \<Rightarrow> timeval \<Rightarrow> transactionData" where
  "baseTransactionData req c now =
     \<lparr> tx_userId = ct_userId req,
       tx_type = ct_type req,
       tx_amount = ct_amount req,
       tx_description = ct_description req,
       tx_categoryId = cat_id c,
       tx_date = (if truthyString (ct_date req)
                  then DateString (case ct_date req of None \<Rightarrow> [] | Some s \<Rightarrow> s)
                  else DateObject (Some now)),
       tx_paymentMethod = ct_paymentMethod req,
       tx_notes = ct_notes req,
       tx_currency = firstTruthy (ct_currency req) (ct_userCurrency req) ''USD'',
       tx_isImported = False,
       tx_receipt = None \<rparr>"

text \<open>
  Lines 99-150: with receipt file info and receipt data, the file is promoted and the
  receipt attached; when the promotion throws, the transaction data stay as they are.
\<close>

definition handleReceipt ::
  "createRequest \<Rightarrow> string \<Rightarrow> fileSystem \<Rightarrow> transactionData \<Rightarrow> transactionData \<times> fileSystem" where
  "handleReceipt req permanentFilename fs d =
     (case (ct_receiptFileInfo req, ct_receiptData req) of
        (Some info, Some rd) \<Rightarrow>
          (case promoteReceiptFile fs permanentFilename info rd of
             Inl e \<Rightarrow> (d, fs)
           | Inr (r, fs') \<Rightarrow> (d \<lparr> tx_receipt := Some r \<rparr>, fs'))
      | _ \<Rightarrow> (d, fs))"

definition createTransaction ::
  "regExp \<Rightarrow> createRequest \<Rightarrow> timeval \<Rightarrow> string \<Rightarrow> categoryStore \<Rightarrow> transactionStore \<Rightarrow> fileSystem
     \<Rightarrow> createResponse \<times> transactionStore \<times> fileSystem" where
  "createTransaction rx req now permanentFilename cats txs fs =
     (case findRequestCategory rx req cats of
        Inl response \<Rightarrow> (response, txs, fs)
      | Inr c \<Rightarrow>
          if typeMismatch c (ct_type req)
          then (BadRequest400
                  (''Category '' @ [CHR 0x27] @ cat_name c @ [CHR 0x27] @ '' cannot be used for ''
                   @ (case ct_type req of None \<Rightarrow> ''undefined'' | Some ty \<Rightarrow> ty)
                   @ '' transactions''),
                txs, fs)
          else
            (let (d, fs') = handleReceipt req permanentFilename fs (baseTransactionData req c now);
                 (t, txs') = Transaction_create d txs
             in (Created201 t, txs', fs')))"

section \<open>Sample inputs\<close>

text \<open>The two-record import file of the specification's example.\<close>

definition exampleImport :: string where
  "exampleImport =
     ''Date,Description,Amount,Category'' @ [CHR 0x0A] @
     ''2024-01-05,Grocery Store,-45.20,Groceries'' @ [CHR 0x0A] @
     ''2024-01-06,Paycheck,2000,Salary''"

text \<open>A file whose only data line has an unparseable date, and one with a good line before it.\<close>

definition badDateImport :: string where
  "badDateImport = ''Date,Description,Amount'' @ [CHR 0x0A] @ ''not-a-date,X,10''"

definition mixedImport :: string where
  "mixedImport =
     ''Date,Description,Amount'' @ [CHR 0x0A] @
     ''2024-01-05,Coffee,3'' @ [CHR 0x0A] @
     ''not-a-date,X,10''"

text \<open>An extracted receipt, the file info of its upload, and categories of the user \<open>u1\<close>.\<close>

definition sampleExtracted :: extractedData where
  "sampleExtracted =
     \<lparr> ed_storeName = Some ''Corner Shop'', ed_date = Some ''2024-01-05'',
       ed_total = Some (Num 12.5), ed_engine = None, ed_ocrEngine = Some ''AWS Textract'',
       ed_needsReview = False, ed_items = Some [''Milk''] \<rparr>"

definition sampleFile :: fileInfo where
  "sampleFile =
     \<lparr> rf_filename = ''receipt-1-2.png'', rf_originalName = ''shop.png'',
       rf_mimetype = ''image/png'', rf_size = 2048,
       rf_path = ''/srv/uploads/receipts/receipt-1-2.png'' \<rparr>"

definition salaryCategory :: category where
  "salaryCategory =
     \<lparr> cat_id = 1, cat_name = ''Salary'', cat_type = ''income'', cat_userId = Some ''u1'',
       cat_isDefault = False, cat_color = None, cat_icon = None \<rparr>"

text \<open>
  Modelled from the spec: an instance of \<open>generateTransactionData\<close> for the examples,
  after the assembler of the specification (a pure merge of the extracted receipt, the
  owner and the category): the receipt total is the amount of an expense.
\<close>

definition sampleGenerate :: generator where
  "sampleGenerate svc d uid cid =
     Inr \<lparr> tx_userId = uid, tx_type = Some ''expense'',
           tx_amount = (case ed_total d of None \<Rightarrow> NaN | Some x \<Rightarrow> x),
           tx_description = ed_storeName d, tx_categoryId = cid,
           tx_date = DateString (case ed_date d of None \<Rightarrow> [] | Some s \<Rightarrow> s),
           tx_paymentMethod = None, tx_notes = None, tx_currency = ''USD'',
           tx_isImported = False,
           tx_receipt = Some \<lparr> r_filename = [], r_originalName = [], r_mimetype = [],
                               r_size = 0, r_path = [], r_storeName = ed_storeName d,
                               r_total = ed_total d, r_ocrEngine = ed_ocrEngine d,
                               r_needsReview = ed_needsReview d \<rparr> \<rparr>"

definition noOverrides :: overrides where
  "noOverrides =
     \<lparr> ov_categoryName = None, ov_categoryId = None, ov_amount = Undefined,
       ov_description = None, ov_date = None \<rparr>"

text \<open>An imported record whose category name holds a regular-expression quantifier.\<close>

definition foodDrinkRecord :: importedTransaction where
  "foodDrinkRecord =
     \<lparr> it_userId = ''u1'', it_type = ''expense'', it_amount = Num 3,
       it_description = ''Lunch'', it_categoryName = ''Food+Drink'',
       it_date = 1704412800000, it_isImported = True \<rparr>"

definition firstFoodDrink :: category where
  "firstFoodDrink =
     \<lparr> cat_id = 1, cat_name = ''Food+Drink'', cat_type = ''expense'', cat_userId = Some ''u1'',
       cat_isDefault = False, cat_color = None, cat_icon = None \<rparr>"

definition secondFoodDrink :: category where
  "secondFoodDrink = firstFoodDrink \<lparr> cat_id := 2 \<rparr>"

text \<open>
  A temp receipt in the temp directory of the server, a file system that holds it, and a
  direct create request that refers to it.
\<close>

definition groceriesCategory :: category where
  "groceriesCategory =
     \<lparr> cat_id = 5, cat_name = ''Groceries'', cat_type = ''expense'', cat_userId = None,
       cat_isDefault = True, cat_color = None, cat_icon = None \<rparr>"

definition sampleTempInfo :: receiptFileInfo where
  "sampleTempInfo =
     \<lparr> fi_tempPath = [''srv'', ''uploads'', ''temp-receipts'', ''temp-receipt-1-2.png''],
       fi_originalName = ''shop.png'', fi_mimetype = ''image/png'', fi_size = 2048 \<rparr>"

definition emptyFs :: fileSystem where
  "emptyFs = (\<lambda>p. None)"

definition tempFs :: fileSystem where
  "tempFs = emptyFs ([''srv'', ''uploads'', ''temp-receipts'', ''temp-receipt-1-2.png''] := Some ''PNG'')"

definition sampleCreate :: createRequest where
  "sampleCreate =
     \<lparr> ct_userId = ''u1'', ct_userCurrency = None, ct_type = Some ''expense'',
       ct_amount = Num 12.5, ct_description = Some ''Corner Shop'', ct_categoryId = Some 5,
       ct_categoryName = None, ct_category = None, ct_date = None,
       ct_paymentMethod = None, ct_notes = None, ct_currency = None,
       ct_receiptFileInfo = Some sampleTempInfo, ct_receiptData = Some sampleExtracted \<rparr>"

section \<open>Properties of the tabular import parser\<close>

lemma amountStrOf_minus: "CHR ''-'' \<in> set (amountStrOf p) \<longleftrightarrow> CHR ''-'' \<in> set p"
  by (auto simp: amountStrOf_def)

lemma parseLine_Some_type:
  assumes "parseLine pd userId raw = Some t"
  shows "it_type t = inferType (amountStrOf (lineParts (trim raw) ! 2)) (lineParts (trim raw) ! 1)"
  using assms
  by (auto simp: parseLine_def Let_def split: if_splits option.splits)

lemma parseRows_mem:
  "t \<in> set (parseRows pd userId ls) \<Longrightarrow> \<exists>raw \<in> set ls. parseLine pd userId raw = Some t"
  by (induction ls) (auto split: option.splits)

lemma parseRows_append:
  "parseRows pd userId (xs @ ys) = parseRows pd userId xs @ parseRows pd userId ys"
  by (induction xs) (auto split: option.splits)

lemma Math_abs_zero: "Math_abs x = Num 0 \<longleftrightarrow> x = Num 0"
  by (cases x) auto

lemma Math_abs_NaN: "isNaN (Math_abs x) \<longleftrightarrow> x = NaN"
  by (cases x) (auto simp: isNaN_def)

lemma parseLine_rejects:
  assumes "3 \<le> length (lineParts (trim raw))"
    and "pd (lineParts (trim raw) ! 0) = None
         \<or> parseFloat (amountStrOf (lineParts (trim raw) ! 2)) = NaN
         \<or> parseFloat (amountStrOf (lineParts (trim raw) ! 2)) = Num 0"
  shows "parseLine pd userId raw = None"
  using assms
  by (auto simp: parseLine_def Let_def Math_abs_zero Math_abs_NaN split: option.splits)

subsection \<open>The example file\<close>

lemma exampleImport_lines:
  "drop 1 (textLines exampleImport) =
     [''2024-01-05,Grocery Store,-45.20,Groceries'', ''2024-01-06,Paycheck,2000,Salary'']"
  by code_simp

lemma example_parts1:
  "lineParts (trim ''2024-01-05,Grocery Store,-45.20,Groceries'') =
     [''2024-01-05'', ''Grocery Store'', ''-45.20'', ''Groceries'']"
  by code_simp

lemma example_parts2:
  "lineParts (trim ''2024-01-06,Paycheck,2000,Salary'') =
     [''2024-01-06'', ''Paycheck'', ''2000'', ''Salary'']"
  by code_simp

lemmas parseFloat_defs =
  amountStrOf_def parseFloat_def unsignedLiteral_def isWhiteSpace_def isDigit_def
  digitsValue_def scale10_def exponentPart_def Let_def

lemma example_amount1: "Math_abs (parseFloat (amountStrOf ''-45.20'')) = Num 45.2"
  by (simp add: parseFloat_defs)

lemma example_amount2: "Math_abs (parseFloat (amountStrOf ''2000'')) = Num 2000"
  by (simp add: parseFloat_defs)

lemma example_type1: "inferType (amountStrOf ''-45.20'') ''Grocery Store'' = ''expense''"
  by code_simp

lemma example_type2: "inferType (amountStrOf ''2000'') ''Paycheck'' = ''income''"
  by code_simp

lemma example_trim1: "trim ''2024-01-05,Grocery Store,-45.20,Groceries'' \<noteq> []"
  by code_simp

lemma example_trim2: "trim ''2024-01-06,Paycheck,2000,Salary'' \<noteq> []"
  by code_simp

lemma example_trim3: "trim ''Grocery Store'' = ''Grocery Store''"
  by code_simp

lemma example_trim4: "trim ''Paycheck'' = ''Paycheck''"
  by code_simp

lemma example_trim5:
  "trim (categoryNameOf [''2024-01-05'', ''Grocery Store'', ''-45.20'', ''Groceries'']) = ''Groceries''"
  by code_simp

lemma example_trim6:
  "trim (categoryNameOf [''2024-01-06'', ''Paycheck'', ''2000'', ''Salary'']) = ''Salary''"
  by code_simp

lemma example_line1:
  "pd ''2024-01-05'' = Some d1 \<Longrightarrow>
   parseLine pd userId ''2024-01-05,Grocery Store,-45.20,Groceries'' =
     Some \<lparr> it_userId = userId, it_type = ''expense'', it_amount = Num 45.2,
            it_description = ''Grocery Store'', it_categoryName = ''Groceries'',
            it_date = d1, it_isImported = True \<rparr>"
  unfolding parseLine_def Let_def
  by (simp add: example_parts1 example_trim1 example_trim3 example_trim5
      example_amount1 example_type1 isNaN_def)

lemma example_line2:
  "pd ''2024-01-06'' = Some d2 \<Longrightarrow>
   parseLine pd userId ''2024-01-06,Paycheck,2000,Salary'' =
     Some \<lparr> it_userId = userId, it_type = ''income'', it_amount = Num 2000,
            it_description = ''Paycheck'', it_categoryName = ''Salary'',
            it_date = d2, it_isImported = True \<rparr>"
  unfolding parseLine_def Let_def
  by (simp add: example_parts2 example_trim2 example_trim4 example_trim6
      example_amount2 example_type2 isNaN_def)

lemma exampleImport_records:
  assumes "pd ''2024-01-05'' = Some d1" and "pd ''2024-01-06'' = Some d2"
  shows "parseTabularData pd exampleImport userId =
     [\<lparr> it_userId = userId, it_type = ''expense'', it_amount = Num 45.2,
        it_description = ''Grocery Store'', it_categoryName = ''Groceries'',
        it_date = d1, it_isImported = True \<rparr>,
      \<lparr> it_userId = userId, it_type = ''income'', it_amount = Num 2000,
        it_description = ''Paycheck'', it_categoryName = ''Salary'',
        it_date = d2, it_isImported = True \<rparr>]"
  unfolding parseTabularData_def exampleImport_lines
  by (simp add: example_line1 [of pd d1 userId, OF assms(1)]
      example_line2 [of pd d2 userId, OF assms(2)])

lemma isoDateOnly_jan5: "isoDateOnly ''2024-01-05'' = Some 1704412800000"
  by code_simp

lemma isoDateOnly_jan6: "isoDateOnly ''2024-01-06'' = Some 1704499200000"
  by code_simp

lemma isoDateOnly_not_a_date: "isoDateOnly ''not-a-date'' = None"
  by code_simp

text \<open>
  C6. Every record that the parser returns comes from a data line that it accepted, and
  the type of the record of an accepted line is \<open>expense\<close> exactly when the raw amount
  field (\<open>parts[2]\<close>) contains a minus sign or the description field (\<open>parts[1]\<close>)
  contains \<open>payment\<close> in any letter case, and \<open>income\<close> otherwise. On the
  specification's two-line example, for every host date parser that accepts the two
  dates, the parser returns exactly the two records \<open>expense, 45.20, Groceries\<close> and
  \<open>income, 2000, Salary\<close>.
\<close>

theorem parseTabularData_infers_type:
  "(\<forall>t \<in> set (parseTabularData pd text userId).
      \<exists>raw \<in> set (drop 1 (textLines text)). parseLine pd userId raw = Some t)
   \<and> (\<forall>raw t. parseLine pd userId raw = Some t \<longrightarrow>
        it_type t =
          (if CHR ''-'' \<in> set (lineParts (trim raw) ! 2)
              \<or> includesStr (toLowerCase (lineParts (trim raw) ! 1)) ''payment''
           then ''expense'' else ''income''))
   \<and> (pd ''2024-01-05'' = Some d1 \<and> pd ''2024-01-06'' = Some d2 \<longrightarrow>
        parseTabularData pd exampleImport userId =
          [\<lparr> it_userId = userId, it_type = ''expense'', it_amount = Num 45.2,
             it_description = ''Grocery Store'', it_categoryName = ''Groceries'',
             it_date = d1, it_isImported = True \<rparr>,
           \<lparr> it_userId = userId, it_type = ''income'', it_amount = Num 2000,
             it_description = ''Paycheck'', it_categoryName = ''Salary'',
             it_date = d2, it_isImported = True \<rparr>])"
proof (intro conjI ballI allI impI)
  fix t assume "t \<in> set (parseTabularData pd text userId)"
  then show "\<exists>raw \<in> set (drop 1 (textLines text)). parseLine pd userId raw = Some t"
    unfolding parseTabularData_def by (rule parseRows_mem)
next
  fix raw t assume "parseLine pd userId raw = Some t"
  then show "it_type t =
          (if CHR ''-'' \<in> set (lineParts (trim raw) ! 2)
              \<or> includesStr (toLowerCase (lineParts (trim raw) ! 1)) ''payment''
           then ''expense'' else ''income'')"
    by (simp add: parseLine_Some_type inferType_def amountStrOf_minus)
next
  assume "pd ''2024-01-05'' = Some d1 \<and> pd ''2024-01-06'' = Some d2"
  then show "parseTabularData pd exampleImport userId =
          [\<lparr> it_userId = userId, it_type = ''expense'', it_amount = Num 45.2,
             it_description = ''Grocery Store'', it_categoryName = ''Groceries'',
             it_date = d1, it_isImported = True \<rparr>,
           \<lparr> it_userId = userId, it_type = ''income'', it_amount = Num 2000,
             it_description = ''Paycheck'', it_categoryName = ''Salary'',
             it_date = d2, it_isImported = True \<rparr>]"
    by (simp add: exampleImport_records)
qed

theorem parseTabularData_infers_type_witness:
  "parseTabularData isoDateOnly exampleImport ''u1'' =
     [\<lparr> it_userId = ''u1'', it_type = ''expense'', it_amount = Num 45.2,
        it_description = ''Grocery Store'', it_categoryName = ''Groceries'',
        it_date = 1704412800000, it_isImported = True \<rparr>,
      \<lparr> it_userId = ''u1'', it_type = ''income'', it_amount = Num 2000,
        it_description = ''Paycheck'', it_categoryName = ''Salary'',
        it_date = 1704499200000, it_isImported = True \<rparr>]
   \<and> CHR ''-'' \<in> set (lineParts (trim ''2024-01-05,Grocery Store,-45.20,Groceries'') ! 2)
   \<and> (\<exists>t. parseLine isoDateOnly ''u1'' ''2024-01-05,Grocery Store,-45.20,Groceries'' = Some t
          \<and> it_type t = ''expense'')"
  using parseTabularData_infers_type
          [of isoDateOnly exampleImport "''u1''" 1704412800000 1704499200000]
        isoDateOnly_jan5 isoDateOnly_jan6 example_parts1
        example_line1 [of isoDateOnly 1704412800000 "''u1''", OF isoDateOnly_jan5]
  by simp

subsection \<open>Rejected lines\<close>

lemma badDateImport_lines: "drop 1 (textLines badDateImport) = [''not-a-date,X,10'']"
  by code_simp

lemma mixedImport_lines:
  "drop 1 (textLines mixedImport) = [''2024-01-05,Coffee,3'', ''not-a-date,X,10'']"
  by code_simp

lemma bad_parts: "lineParts (trim ''not-a-date,X,10'') = [''not-a-date'', ''X'', ''10'']"
  by code_simp

lemma bad_trim: "trim ''not-a-date,X,10'' \<noteq> []"
  by code_simp

lemma bad_line: "pd ''not-a-date'' = None \<Longrightarrow> parseLine pd userId ''not-a-date,X,10'' = None"
  unfolding parseLine_def Let_def
  by (simp add: bad_parts bad_trim)

lemma coffee_parts: "lineParts (trim ''2024-01-05,Coffee,3'') = [''2024-01-05'', ''Coffee'', ''3'']"
  by code_simp

lemma coffee_trim1: "trim ''2024-01-05,Coffee,3'' \<noteq> []"
  by code_simp

lemma coffee_trim2: "trim ''Coffee'' = ''Coffee''"
  by code_simp

lemma coffee_trim3: "trim (categoryNameOf [''2024-01-05'', ''Coffee'', ''3'']) = ''Imported''"
  by code_simp

lemma coffee_amount: "Math_abs (parseFloat (amountStrOf ''3'')) = Num 3"
  by (simp add: parseFloat_defs)

lemma coffee_type: "inferType (amountStrOf ''3'') ''Coffee'' = ''income''"
  by code_simp

lemma coffee_line:
  "pd ''2024-01-05'' = Some d1 \<Longrightarrow>
   parseLine pd userId ''2024-01-05,Coffee,3'' =
     Some \<lparr> it_userId = userId, it_type = ''income'', it_amount = Num 3,
            it_description = ''Coffee'', it_categoryName = ''Imported'',
            it_date = d1, it_isImported = True \<rparr>"
  unfolding parseLine_def Let_def
  by (simp add: coffee_parts coffee_trim1 coffee_trim2 coffee_trim3 coffee_amount coffee_type
      isNaN_def)

lemma badDateImport_records: "parseTabularData isoDateOnly badDateImport ''u1'' = []"
  unfolding parseTabularData_def badDateImport_lines
  by (simp add: bad_line [of isoDateOnly "''u1''", OF isoDateOnly_not_a_date])

lemma mixedImport_records:
  "parseTabularData isoDateOnly mixedImport ''u1'' =
     [\<lparr> it_userId = ''u1'', it_type = ''income'', it_amount = Num 3,
        it_description = ''Coffee'', it_categoryName = ''Imported'',
        it_date = 1704412800000, it_isImported = True \<rparr>]"
  unfolding parseTabularData_def mixedImport_lines
  by (simp add: bad_line [of isoDateOnly "''u1''", OF isoDateOnly_not_a_date]
      coffee_line [of isoDateOnly 1704412800000 "''u1''", OF isoDateOnly_jan5])

lemma simpleRegExp_Imported: "simpleRegExp (nameSource ''Imported'') \<noteq> None"
  by (simp add: simpleRegExp_def nameSource_def syntaxChar_def quantifierOf_def)

lemma processTransactions_errors:
  "fst ` set (is_errors (processTransactions rx uid ts st)) \<subseteq> fst ` set (is_errors st) \<union> set ts"
proof (induction ts arbitrary: st)
  case Nil
  then show ?case by simp
next
  case (Cons t ts)
  show ?case
  proof (cases "resolveImportCategory rx uid t (is_categories st)")
    case (Inl msg)
    then show ?thesis
      using Cons.IH [of "st \<lparr> is_errors := is_errors st @ [(t, msg)] \<rparr>"] by auto
  next
    case (Inr p)
    obtain c cats where p: "p = (c, cats)" by (cases p)
    show ?thesis
      using Cons.IH [of "st \<lparr> is_processed := is_processed st @ [finalTransactionData t c],
                              is_categories := cats \<rparr>"] Inr p
      by auto
  qed
qed

lemma uploadTransactionHistory_errors:
  assumes "uploadTransactionHistory pd rx uid fileType text cats txs = Inr (r, cats', txs')"
  shows "fst ` set (ir_errors r) \<subseteq> set (parseTabularData pd text uid)"
proof -
  have "ir_errors r = is_errors (processTransactions rx uid (parseTabularData pd text uid)
            \<lparr> is_processed = [], is_errors = [], is_categories = cats \<rparr>)"
    using assms
    by (auto simp: uploadTransactionHistory_def Let_def split: if_splits prod.splits)
  then show ?thesis
    using processTransactions_errors
            [of rx uid "parseTabularData pd text uid"
               "\<lparr> is_processed = [], is_errors = [], is_categories = cats \<rparr>"]
    by simp
qed

lemma mixedImport_response:
  "\<exists>r cats txs.
     uploadTransactionHistory isoDateOnly simpleRegExp ''u1'' ''text/csv'' mixedImport [] [] =
       Inr (r, cats, txs)
     \<and> ir_imported r = 1 \<and> ir_errorCount r = 0 \<and> ir_errors r = []"
  using simpleRegExp_Imported
  by (auto simp: uploadTransactionHistory_def mixedImport_records resolveImportCategory_def
      findOne_def Category_create_def Transaction_insertMany_def Let_def split: option.splits)

text \<open>
  C1, as the claim states it, fails. For the single data line \<open>not-a-date,X,10\<close> the
  parser returns no record and nothing else, and the import answers with the failure
  \<open>No valid transactions found in the uploaded file\<close> instead of a result that holds
  one ParseError. With an accepted line before it, the import succeeds with one
  record and an empty error list: the rejected line is referenced nowhere.
\<close>

theorem parse_error_not_collected_counterexample:
  "parseTabularData isoDateOnly badDateImport ''u1'' = []
   \<and> uploadTransactionHistory isoDateOnly simpleRegExp ''u1'' ''text/csv'' badDateImport [] [] =
       Inl ''No valid transactions found in the uploaded file''
   \<and> length (parseTabularData isoDateOnly mixedImport ''u1'') = 1
   \<and> (\<exists>r cats txs.
         uploadTransactionHistory isoDateOnly simpleRegExp ''u1'' ''text/csv'' mixedImport [] [] =
           Inr (r, cats, txs)
         \<and> ir_imported r = 1 \<and> ir_errorCount r = 0 \<and> ir_errors r = [])"
  using mixedImport_response
  by (simp add: badDateImport_records mixedImport_records uploadTransactionHistory_def)

text \<open>
  C1, amended. A line with at least three fields whose date the host cannot parse, or
  whose amount is not numeric or is exactly zero, is skipped without failing: it gives
  no record, and the records of the lines before and after it are what they are
  without it. The errors of the import response only ever refer to records that the
  parser accepted (their category resolution threw), never to a skipped line.
\<close>

theorem parseTabularData_skips_rejected_line:
  assumes "3 \<le> length (lineParts (trim raw))"
    and "pd (lineParts (trim raw) ! 0) = None
         \<or> parseFloat (amountStrOf (lineParts (trim raw) ! 2)) = NaN
         \<or> parseFloat (amountStrOf (lineParts (trim raw) ! 2)) = Num 0"
  shows "parseLine pd userId raw = None
   \<and> parseRows pd userId (before @ raw # after) =
       parseRows pd userId before @ parseRows pd userId after
   \<and> (\<forall>fileType text cats txs r cats' txs'.
         uploadTransactionHistory pd rx userId fileType text cats txs = Inr (r, cats', txs') \<longrightarrow>
         fst ` set (ir_errors r) \<subseteq> set (parseTabularData pd text userId))"
proof -
  have none: "parseLine pd userId raw = None"
    using assms by (rule parseLine_rejects)
  have "parseRows pd userId (before @ raw # after) =
          parseRows pd userId before @ parseRows pd userId (raw # after)"
    by (rule parseRows_append)
  then have "parseRows pd userId (before @ raw # after) =
          parseRows pd userId before @ parseRows pd userId after"
    using none by simp
  then show ?thesis
    using none uploadTransactionHistory_errors by blast
qed

theorem parseTabularData_skips_rejected_line_witness:
  "3 \<le> length (lineParts (trim ''not-a-date,X,10''))
   \<and> isoDateOnly (lineParts (trim ''not-a-date,X,10'') ! 0) = None
   \<and> parseLine isoDateOnly ''u1'' ''not-a-date,X,10'' = None
   \<and> parseRows isoDateOnly ''u1'' ([''2024-01-05,Coffee,3''] @ ''not-a-date,X,10'' # []) =
       parseRows isoDateOnly ''u1'' [''2024-01-05,Coffee,3''] @ parseRows isoDateOnly ''u1'' []"
proof -
  have a: "3 \<le> length (lineParts (trim ''not-a-date,X,10''))"
    by (simp add: bad_parts)
  have b: "isoDateOnly (lineParts (trim ''not-a-date,X,10'') ! 0) = None"
    by (simp add: bad_parts isoDateOnly_not_a_date)
  from b have c: "isoDateOnly (lineParts (trim ''not-a-date,X,10'') ! 0) = None
         \<or> parseFloat (amountStrOf (lineParts (trim ''not-a-date,X,10'') ! 2)) = NaN
         \<or> parseFloat (amountStrOf (lineParts (trim ''not-a-date,X,10'') ! 2)) = Num 0"
    by simp
  show ?thesis
    using a b parseTabularData_skips_rejected_line
                [of "''not-a-date,X,10''" isoDateOnly "''u1''" "[''2024-01-05,Coffee,3'']" "[]"
                    simpleRegExp, OF a c]
    by blast
qed

section \<open>Properties of the receipt extraction\<close>

lemma runPrimary_textract_fails:
  "runPrimary ''textract'' \<lparr> textract = Threw e1, tesseract = t \<rparr> textractOcrService =
     (case t of
        Returned d \<Rightarrow>
          \<lparr> calls = [textractOcrService, tesseractOcrService], extracted = Some d,
            processingError = None, service = Some textractOcrService \<rparr>
      | ReturnedNull \<Rightarrow>
          \<lparr> calls = [textractOcrService, tesseractOcrService], extracted = None,
            processingError = None, service = Some textractOcrService \<rparr>
      | Threw e2 \<Rightarrow>
          \<lparr> calls = [textractOcrService, tesseractOcrService], extracted = None,
            processingError = Some (''Primary OCR failed: '' @ e1 @ ''. Fallback also failed: '' @ e2),
            service = Some textractOcrService \<rparr>)"
  by (simp add: runPrimary_def fallbackAfterError_def invoke_def split: engineOutcome.splits)

lemma runPrimary_tesseract_fails:
  "runPrimary ''tesseract'' \<lparr> textract = x, tesseract = Threw e \<rparr> tesseractOcrService =
     \<lparr> calls = [tesseractOcrService], extracted = None, processingError = Some e,
       service = Some tesseractOcrService \<rparr>"
  by (simp add: runPrimary_def fallbackAfterError_def invoke_def)

lemma chooseService_textract: "chooseService ''textract'' = textractOcrService"
  by (simp add: chooseService_def forceOcrEngine_def)

lemma chooseService_tesseract: "chooseService ''tesseract'' = tesseractOcrService"
  by (simp add: chooseService_def forceOcrEngine_def)

text \<open>
  In \<open>extractReceiptData\<close>, and in \<open>uploadReceipt\<close> when auto-processing is on: with the
  hint \<open>textract\<close> and a Textract call that throws, Tesseract is called exactly once,
  after Textract; its data are the result when it returns some, and when it throws too
  the error names both messages. With the hint \<open>tesseract\<close> and a Tesseract call that
  throws, no other call is made and the error of the call is the result. In both
  failures \<open>uploadReceipt\<close> answers with the error for manual review and writes nothing.
\<close>

lemma extract_and_upload_fall_back:
  assumes "autoProcessOf ap = ''true''"
  shows "extractReceiptData_ocr (Some ''textract'') \<lparr> textract = Threw e1, tesseract = Returned d \<rparr> =
           \<lparr> calls = [textractOcrService, tesseractOcrService], extracted = Some d,
             processingError = None, service = Some textractOcrService \<rparr>
   \<and> extractReceiptData_ocr (Some ''textract'') \<lparr> textract = Threw e1, tesseract = Threw e2 \<rparr> =
           \<lparr> calls = [textractOcrService, tesseractOcrService], extracted = None,
             processingError = Some (''Primary OCR failed: '' @ e1 @ ''. Fallback also failed: '' @ e2),
             service = Some textractOcrService \<rparr>
   \<and> count_list (calls (extractReceiptData_ocr (Some ''textract'') \<lparr> textract = Threw e1, tesseract = t \<rparr>))
         tesseractOcrService = 1
   \<and> extractReceiptData_ocr (Some ''tesseract'') \<lparr> textract = x, tesseract = Threw e \<rparr> =
           \<lparr> calls = [tesseractOcrService], extracted = None, processingError = Some e,
             service = Some tesseractOcrService \<rparr>
   \<and> extractReceiptData (Some ''tesseract'') \<lparr> textract = x, tesseract = Threw e \<rparr> =
           ([tesseractOcrService], ExtractFailed (Some e))
   \<and> uploadReceipt_ocr ap (Some ''textract'') \<lparr> textract = Threw e1, tesseract = Returned d \<rparr> =
           \<lparr> calls = [textractOcrService, tesseractOcrService], extracted = Some d,
             processingError = None, service = Some textractOcrService \<rparr>
   \<and> uploadReceipt_ocr ap (Some ''textract'') \<lparr> textract = Threw e1, tesseract = Threw e2 \<rparr> =
           \<lparr> calls = [textractOcrService, tesseractOcrService], extracted = None,
             processingError = Some (''Primary OCR failed: '' @ e1 @ ''. Fallback also failed: '' @ e2),
             service = Some textractOcrService \<rparr>
   \<and> count_list (calls (uploadReceipt_ocr ap (Some ''textract'') \<lparr> textract = Threw e1, tesseract = t \<rparr>))
         tesseractOcrService = 1
   \<and> uploadReceipt_ocr ap (Some ''tesseract'') \<lparr> textract = x, tesseract = Threw e \<rparr> =
           \<lparr> calls = [tesseractOcrService], extracted = None, processingError = Some e,
             service = Some tesseractOcrService \<rparr>
   \<and> uploadReceipt rx gen (req \<lparr> ur_autoProcess := ap, ur_ocrEngine := Some ''tesseract'' \<rparr>)
         \<lparr> textract = x, tesseract = Threw e \<rparr> cats txs =
           ([tesseractOcrService], ReceiptForReview None (Some e), cats, txs)
   \<and> uploadReceipt rx gen (req \<lparr> ur_autoProcess := ap, ur_ocrEngine := Some ''textract'' \<rparr>)
         \<lparr> textract = Threw e1, tesseract = Threw e2 \<rparr> cats txs =
           ([textractOcrService, tesseractOcrService],
            ReceiptForReview None
              (Some (''Primary OCR failed: '' @ e1 @ ''. Fallback also failed: '' @ e2)),
            cats, txs)"
proof -
  have count: "count_list (calls (runPrimary ''textract'' \<lparr> textract = Threw e1, tesseract = t \<rparr>
                  textractOcrService)) tesseractOcrService = 1"
    by (cases t) (simp_all add: runPrimary_textract_fails)
  show ?thesis
    using assms count
    by (simp add: extractReceiptData_ocr_def extractReceiptData_def uploadReceipt_ocr_def
        uploadReceipt_def ocrEngineOf_def runPrimary_textract_fails runPrimary_tesseract_fails
        chooseService_textract chooseService_tesseract)
qed

lemma calls_after_textract_throws:
  "calls (runPrimary ''textract'' \<lparr> textract = Threw e, tesseract = t \<rparr> textractOcrService) =
     [textractOcrService, tesseractOcrService]"
  by (cases t) (simp_all add: runPrimary_textract_fails)

text \<open>
  C3 at the failing input. \<open>processUploadedReceipt\<close> with the hint \<open>textract\<close>, or with
  no hint, and a Textract call that throws: Textract is the only call and the answer is
  the 500 response with the message of the error; Tesseract is not tried, whatever it
  would do. At the same input \<open>extractReceiptData\<close> and \<open>uploadReceipt\<close> call Tesseract
  once, after Textract. In those two handlers a Tesseract fallback that returns no data
  clears the pending error: the extraction has failed twice and no error is captured.
  When the fallback throws, both messages are captured. With the hint \<open>tesseract\<close> a
  call that throws is final in all three handlers.
\<close>

theorem processUploadedReceipt_has_no_fallback:
  "processUploadedReceipt True (Some ''textract'') \<lparr> textract = Threw e, tesseract = t \<rparr> =
     ([textractOcrService], ProcessFailed500 e)
   \<and> processUploadedReceipt True None \<lparr> textract = Threw e, tesseract = t \<rparr> =
     ([textractOcrService], ProcessFailed500 e)
   \<and> calls (extractReceiptData_ocr (Some ''textract'') \<lparr> textract = Threw e, tesseract = t \<rparr>) =
     [textractOcrService, tesseractOcrService]
   \<and> calls (uploadReceipt_ocr None (Some ''textract'') \<lparr> textract = Threw e, tesseract = t \<rparr>) =
     [textractOcrService, tesseractOcrService]
   \<and> extractReceiptData (Some ''textract'') \<lparr> textract = Threw e, tesseract = ReturnedNull \<rparr> =
     ([textractOcrService, tesseractOcrService], ExtractFailed None)
   \<and> extractReceiptData (Some ''textract'') \<lparr> textract = Threw e, tesseract = Threw e2 \<rparr> =
     ([textractOcrService, tesseractOcrService],
      ExtractFailed (Some (''Primary OCR failed: '' @ e @ ''. Fallback also failed: '' @ e2)))
   \<and> extractReceiptData (Some ''tesseract'') \<lparr> textract = x, tesseract = Threw e \<rparr> =
     ([tesseractOcrService], ExtractFailed (Some e))
   \<and> uploadReceipt_ocr None (Some ''tesseract'') \<lparr> textract = x, tesseract = Threw e \<rparr> =
     \<lparr> calls = [tesseractOcrService], extracted = None, processingError = Some e,
       service = Some tesseractOcrService \<rparr>
   \<and> processUploadedReceipt True (Some ''tesseract'') \<lparr> textract = x, tesseract = Threw e \<rparr> =
     ([tesseractOcrService], ProcessFailed500 e)"
  using calls_after_textract_throws [of e t]
  by (simp add: processUploadedReceipt_def extractReceiptData_ocr_def extractReceiptData_def
      uploadReceipt_ocr_def autoProcessOf_def ocrEngineOf_def invoke_def truthyString_def
      runPrimary_textract_fails runPrimary_tesseract_fails chooseService_textract
      chooseService_tesseract)

text \<open>
  C7. An absent engine hint is the hint \<open>textract\<close>. A hint that is neither
  \<open>tesseract\<close> nor \<open>textract\<close> makes Textract the primary service, but when that call
  fails no fallback is made: Textract is the only call and its error is the result,
  where the hint \<open>textract\<close> would have called Tesseract. The extraction step of
  \<open>uploadReceipt\<close> does the same with such a hint.
\<close>

theorem unknown_hint_has_no_fallback:
  assumes "hint \<noteq> ''tesseract''" and "hint \<noteq> ''textract''"
  shows "extractReceiptData_ocr None env = extractReceiptData_ocr (Some ''textract'') env
   \<and> extractReceiptData_ocr (Some hint) \<lparr> textract = Threw e, tesseract = t \<rparr> =
         \<lparr> calls = [textractOcrService], extracted = None, processingError = Some e,
           service = Some textractOcrService \<rparr>
   \<and> extractReceiptData (Some hint) \<lparr> textract = Threw e, tesseract = t \<rparr> =
         ([textractOcrService], ExtractFailed (Some e))
   \<and> calls (extractReceiptData_ocr (Some ''textract'') \<lparr> textract = Threw e, tesseract = t \<rparr>) =
         [textractOcrService, tesseractOcrService]
   \<and> uploadReceipt_ocr ap None env = uploadReceipt_ocr ap (Some ''textract'') env
   \<and> uploadReceipt_ocr None (Some hint) \<lparr> textract = Threw e, tesseract = t \<rparr> =
         \<lparr> calls = [textractOcrService], extracted = None, processingError = Some e,
           service = Some textractOcrService \<rparr>"
proof -
  have "calls (runPrimary ''textract'' \<lparr> textract = Threw e, tesseract = t \<rparr> textractOcrService) =
          [textractOcrService, tesseractOcrService]"
    by (cases t) (simp_all add: runPrimary_textract_fails)
  then show ?thesis
    using assms
    by (simp add: extractReceiptData_ocr_def extractReceiptData_def ocrEngineOf_def
        uploadReceipt_ocr_def autoProcessOf_def chooseService_def forceOcrEngine_def
        runPrimary_def fallbackAfterError_def invoke_def)
qed

theorem unknown_hint_has_no_fallback_witness:
  "''cloud'' \<noteq> ''tesseract'' \<and> ''cloud'' \<noteq> ''textract''
   \<and> extractReceiptData (Some ''cloud'')
        \<lparr> textract = Threw ''throttled'', tesseract = Returned sampleExtracted \<rparr> =
       ([textractOcrService], ExtractFailed (Some ''throttled''))
   \<and> calls (extractReceiptData_ocr (Some ''textract'')
        \<lparr> textract = Threw ''throttled'', tesseract = Returned sampleExtracted \<rparr>) =
       [textractOcrService, tesseractOcrService]"
  using unknown_hint_has_no_fallback [where hint = "''cloud''" and e = "''throttled''"
      and t = "Returned sampleExtracted"]
  by simp

section \<open>Properties of category resolution\<close>

lemma findOne_Some: "findOne flt store = Some c \<Longrightarrow> flt c \<and> c \<in> set store"
  by (auto simp: findOne_def find_Some_iff)

lemma findOne_None: "findOne flt store = None \<longleftrightarrow> (\<forall>c \<in> set store. \<not> flt c)"
  by (auto simp: findOne_def find_None_iff)

lemma findOne_append_new:
  "findOne flt store = None \<Longrightarrow> flt c \<Longrightarrow> findOne flt (store @ [c]) = Some c"
  by (induction store) (auto simp: findOne_def split: if_splits)

lemma hintedCategory_no_id:
  assumes "hintedCategory rx cn None uid cats = Inr (Some c)"
  shows "cat_type c = ''expense'' \<or> cat_type c = ''both''"
  using assms
  by (auto simp: hintedCategory_def split: if_splits option.splits dest!: findOne_Some)

lemma hintedCategory_id:
  assumes "hintedCategory rx cn (Some i) uid cats = Inr (Some c)"
  shows "cat_id c = i \<and> c \<in> set cats \<and> inScope uid c"
  using assms
  by (auto simp: hintedCategory_def split: if_splits option.splits dest!: findOne_Some)

lemma resolveReceiptCategory_cases:
  assumes "resolveReceiptCategory rx names cn cid uid cats = Inr (c, cats')"
  shows "hintedCategory rx cn cid uid cats = Inr (Some c)
         \<or> cat_type c = ''expense'' \<or> cat_type c = ''both''"
  using assms
  by (auto simp: resolveReceiptCategory_def Category_create_def Let_def
      split: sum.splits option.splits dest!: findOne_Some)

text \<open>
  C10, as the claim states it, fails: a category id in the request selects the category
  of that id whatever its type. With the id of the income category \<open>Salary\<close>, resolution
  returns that category, and create-from-extracted files the receipt under it.
\<close>

theorem receipt_category_by_id_counterexample:
  "resolveReceiptCategory simpleRegExp createFromReceiptDefaults None (Some 1) ''u1'' [salaryCategory] =
     Inr (salaryCategory, [salaryCategory])
   \<and> resolveReceiptCategory simpleRegExp uploadReceiptDefaults (Some ''Groceries'') (Some 1) ''u1''
       [salaryCategory] = Inr (salaryCategory, [salaryCategory])
   \<and> cat_type salaryCategory = ''income''
   \<and> (\<exists>t. createTransactionFromReceipt simpleRegExp isoDateOnly sampleGenerate
            \<lparr> cr_userId = ''u1'', cr_extractedData = Some sampleExtracted,
              cr_receiptInfo = Some sampleFile,
              cr_overrides = noOverrides \<lparr> ov_categoryId := Some 1 \<rparr> \<rparr> [salaryCategory] [] =
            (Created201 t, [salaryCategory], [t])
          \<and> tx_categoryId t = 1)"
  by (simp add: resolveReceiptCategory_def hintedCategory_def findOne_def inScope_def
      salaryCategory_def truthyString_def createTransactionFromReceipt_def noOverrides_def
      sampleGenerate_def sampleExtracted_def attachFile_def applyOverrides_def
      Transaction_create_def Let_def serviceOfExtracted_def extractedOcrEngine_def)

lemma findOne_by_id:
  assumes "distinct (map cat_id cats)" and "k \<in> set cats" and "inScope uid k"
  shows "findOne (\<lambda>c. cat_id c = cat_id k \<and> inScope uid c) cats = Some k"
  using assms
  by (induction cats) (auto simp: findOne_def)

lemma hintedCategory_with_id:
  "hintedCategory rx cn (Some i) uid cats =
     Inr (findOne (\<lambda>c. cat_id c = i \<and> inScope uid c) cats)"
  by (simp add: hintedCategory_def)

lemma resolveReceiptCategory_id_found:
  assumes "findOne (\<lambda>c. cat_id c = i \<and> inScope uid c) cats = Some k"
  shows "resolveReceiptCategory rx names cn (Some i) uid cats = Inr (k, cats)"
  using assms
  by (simp add: resolveReceiptCategory_def hintedCategory_with_id)

lemma resolveReceiptCategory_id_missing:
  assumes "findOne (\<lambda>c. cat_id c = i \<and> inScope uid c) cats = None"
  shows "\<exists>c cats'. resolveReceiptCategory rx names cn (Some i) uid cats = Inr (c, cats')
           \<and> (cat_type c = ''expense'' \<or> cat_type c = ''both'')"
proof (cases "findOne (\<lambda>c. cat_name c \<in> set names \<and> inScope uid c
                              \<and> cat_type c \<in> set [''expense'', ''both'']) cats")
  case None
  with assms show ?thesis
    by (simp add: resolveReceiptCategory_def hintedCategory_with_id Category_create_def Let_def)
next
  case (Some c)
  with assms findOne_Some [OF Some] show ?thesis
    by (simp add: resolveReceiptCategory_def hintedCategory_with_id)
qed

text \<open>
  C10, amended. On the two receipt paths, without a category id in the request, every
  category that resolution returns or creates has type \<open>expense\<close> or \<open>both\<close>. With the
  id of a category in the owner-or-default scope, resolution returns that category,
  whatever its type, its name and the name hint. With an id that no category in scope
  has, resolution goes on to the default names and the creation, and gives a category
  of type \<open>expense\<close> or \<open>both\<close>. In all cases the category returned has type
  \<open>expense\<close> or \<open>both\<close> unless it is the category in scope with the id of the request,
  and a category that resolution creates has type \<open>expense\<close>.
\<close>

theorem receipt_category_type:
  "(resolveReceiptCategory rx names cn None uid cats = Inr (c, cats') \<longrightarrow>
      cat_type c = ''expense'' \<or> cat_type c = ''both'')
   \<and> (distinct (map cat_id cats) \<and> k \<in> set cats \<and> inScope uid k \<longrightarrow>
      resolveReceiptCategory rx names cn (Some (cat_id k)) uid cats = Inr (k, cats))
   \<and> (findOne (\<lambda>c. cat_id c = i \<and> inScope uid c) cats = Some k \<longrightarrow>
      resolveReceiptCategory rx names cn (Some i) uid cats = Inr (k, cats))
   \<and> (\<not> (\<exists>c \<in> set cats. cat_id c = i \<and> inScope uid c) \<longrightarrow>
      (\<exists>c2 cats2. resolveReceiptCategory rx names cn (Some i) uid cats = Inr (c2, cats2)
         \<and> (cat_type c2 = ''expense'' \<or> cat_type c2 = ''both'')))
   \<and> (resolveReceiptCategory rx names cn cid uid cats = Inr (c, cats') \<longrightarrow>
      (cat_type c = ''expense'' \<or> cat_type c = ''both''
       \<or> (\<exists>j. cid = Some j \<and> cat_id c = j \<and> c \<in> set cats \<and> inScope uid c))
      \<and> (cats' \<noteq> cats \<longrightarrow> cats' = cats @ [c] \<and> cat_type c = ''expense''))"
proof (intro conjI impI)
  assume r: "resolveReceiptCategory rx names cn None uid cats = Inr (c, cats')"
  from resolveReceiptCategory_cases [OF r] hintedCategory_no_id [of rx cn uid cats c]
  show "cat_type c = ''expense'' \<or> cat_type c = ''both''"
    by blast
next
  assume "distinct (map cat_id cats) \<and> k \<in> set cats \<and> inScope uid k"
  then have "findOne (\<lambda>c. cat_id c = cat_id k \<and> inScope uid c) cats = Some k"
    by (simp add: findOne_by_id)
  then show "resolveReceiptCategory rx names cn (Some (cat_id k)) uid cats = Inr (k, cats)"
    by (rule resolveReceiptCategory_id_found)
next
  assume "findOne (\<lambda>c. cat_id c = i \<and> inScope uid c) cats = Some k"
  then show "resolveReceiptCategory rx names cn (Some i) uid cats = Inr (k, cats)"
    by (rule resolveReceiptCategory_id_found)
next
  assume "\<not> (\<exists>c \<in> set cats. cat_id c = i \<and> inScope uid c)"
  then have "findOne (\<lambda>c. cat_id c = i \<and> inScope uid c) cats = None"
    by (simp add: findOne_None)
  then show "\<exists>c2 cats2. resolveReceiptCategory rx names cn (Some i) uid cats = Inr (c2, cats2)
         \<and> (cat_type c2 = ''expense'' \<or> cat_type c2 = ''both'')"
    by (rule resolveReceiptCategory_id_missing)
next
  assume r: "resolveReceiptCategory rx names cn cid uid cats = Inr (c, cats')"
  show "cat_type c = ''expense'' \<or> cat_type c = ''both''
       \<or> (\<exists>j. cid = Some j \<and> cat_id c = j \<and> c \<in> set cats \<and> inScope uid c)"
  proof (cases cid)
    case None
    with resolveReceiptCategory_cases [OF r] hintedCategory_no_id [of rx cn uid cats c]
    show ?thesis by blast
  next
    case (Some j)
    with resolveReceiptCategory_cases [OF r] hintedCategory_id [of rx cn j uid cats c]
    show ?thesis by blast
  qed
next
  assume r: "resolveReceiptCategory rx names cn cid uid cats = Inr (c, cats')"
    and "cats' \<noteq> cats"
  then show "cats' = cats @ [c]"
    by (auto simp: resolveReceiptCategory_def Category_create_def Let_def
        split: sum.splits option.splits)
next
  assume r: "resolveReceiptCategory rx names cn cid uid cats = Inr (c, cats')"
    and "cats' \<noteq> cats"
  then show "cat_type c = ''expense''"
    by (auto simp: resolveReceiptCategory_def Category_create_def Let_def
        split: sum.splits option.splits)
qed

theorem receipt_category_type_witness:
  "distinct (map cat_id [groceriesCategory, salaryCategory])
   \<and> salaryCategory \<in> set [groceriesCategory, salaryCategory] \<and> inScope ''u1'' salaryCategory
   \<and> resolveReceiptCategory simpleRegExp uploadReceiptDefaults (Some ''Groceries'')
         (Some (cat_id salaryCategory)) ''u1'' [groceriesCategory, salaryCategory] =
       Inr (salaryCategory, [groceriesCategory, salaryCategory])
   \<and> cat_type salaryCategory = ''income''
   \<and> \<not> (\<exists>c \<in> set [groceriesCategory, salaryCategory]. cat_id c = 7 \<and> inScope ''u1'' c)
   \<and> (\<exists>c2 cats2. resolveReceiptCategory simpleRegExp uploadReceiptDefaults (Some ''Groceries'')
         (Some 7) ''u1'' [groceriesCategory, salaryCategory] = Inr (c2, cats2)
       \<and> (cat_type c2 = ''expense'' \<or> cat_type c2 = ''both''))"
proof -
  have a: "distinct (map cat_id [groceriesCategory, salaryCategory])
           \<and> salaryCategory \<in> set [groceriesCategory, salaryCategory]
           \<and> inScope ''u1'' salaryCategory"
    by (simp add: groceriesCategory_def salaryCategory_def inScope_def)
  have b: "\<not> (\<exists>c \<in> set [groceriesCategory, salaryCategory]. cat_id c = 7 \<and> inScope ''u1'' c)"
    by (simp add: groceriesCategory_def salaryCategory_def)
  have ty: "cat_type salaryCategory = ''income''"
    by (simp add: salaryCategory_def)
  from receipt_category_type [where rx = simpleRegExp and names = uploadReceiptDefaults
      and cn = "Some ''Groceries''" and uid = "''u1''"
      and cats = "[groceriesCategory, salaryCategory]" and k = salaryCategory and i = 7]
    a b ty
  show ?thesis by blast
qed

subsection \<open>Resolving the same hint twice\<close>

lemma find_append_new:
  "find flt (store @ [c]) =
     (case find flt store of Some x \<Rightarrow> Some x | None \<Rightarrow> if flt c then Some c else None)"
  by (induction store) auto

lemma resolveImportCategory_returns:
  assumes "rx (nameSource (it_categoryName t)) = Some m"
  shows "\<exists>c cats'. resolveImportCategory rx uid t cats = Inr (c, cats')"
  using assms
  by (cases "findOne (\<lambda>c. m (cat_name c) \<and> inScope uid c) cats")
     (auto simp: resolveImportCategory_def Category_create_def Let_def)

text \<open>
  When the expression built from a category name matches that name itself, as it does
  for a name without regular-expression syntax, a second resolution of the same
  record returns the category of the first and creates nothing.
\<close>

lemma resolveImportCategory_twice:
  assumes rx: "rx (nameSource (it_categoryName t)) = Some m"
    and self: "m (it_categoryName t)"
    and first: "resolveImportCategory rx uid t cats = Inr (c, cats')"
  shows "resolveImportCategory rx uid t cats' = Inr (c, cats')"
proof (cases "findOne (\<lambda>c. m (cat_name c) \<and> inScope uid c) cats")
  case (Some c0)
  with rx first show ?thesis
    by (auto simp: resolveImportCategory_def)
next
  case None
  with rx first have c: "c = \<lparr> cat_id = freshId cats, cat_name = it_categoryName t,
        cat_type = it_type t, cat_userId = Some uid, cat_isDefault = False,
        cat_color = None, cat_icon = None \<rparr>" and cats': "cats' = cats @ [c]"
    by (auto simp: resolveImportCategory_def Category_create_def Let_def)
  have "m (cat_name c) \<and> inScope uid c"
    using self c by (simp add: inScope_def)
  with None have "findOne (\<lambda>c. m (cat_name c) \<and> inScope uid c) (cats @ [c]) = Some c"
    by (simp add: findOne_def find_append_new)
  with rx cats' show ?thesis
    by (simp add: resolveImportCategory_def)
qed

lemma resolveReceiptCategory_twice:
  assumes other: "''Other Expenses'' \<in> set names"
    and first: "resolveReceiptCategory rx names cn None uid cats = Inr (c, cats')"
  shows "resolveReceiptCategory rx names cn None uid cats' = Inr (c, cats')"
proof (cases "cats' = cats")
  case True
  with first show ?thesis by simp
next
  case False
  let ?dflt = "\<lambda>c. cat_name c \<in> set names \<and> inScope uid c \<and> cat_type c \<in> set [''expense'', ''both'']"
  from first False
  have h: "hintedCategory rx cn None uid cats = Inr None"
    and d: "findOne ?dflt cats = None"
    and c: "c = \<lparr> cat_id = freshId cats, cat_name = ''Other Expenses'', cat_type = ''expense'',
                  cat_userId = Some uid, cat_isDefault = False,
                  cat_color = Some ''#6366F1'', cat_icon = Some ''shopping-bag'' \<rparr>"
    and cats': "cats' = cats @ [c]"
    by (auto simp: resolveReceiptCategory_def Category_create_def Let_def
        split: sum.splits option.splits)
  have dc: "?dflt c"
    using other c by (simp add: inScope_def)
  with d have d': "findOne ?dflt (cats @ [c]) = Some c"
    by (simp add: findOne_def find_append_new)
  have h': "hintedCategory rx cn None uid (cats @ [c]) = Inr None
            \<or> hintedCategory rx cn None uid (cats @ [c]) = Inr (Some c)"
    using h
    by (auto simp: hintedCategory_def findOne_def find_append_new
        split: if_splits option.splits)
  then show ?thesis
    using d' cats' by (auto simp: resolveReceiptCategory_def)
qed

lemma foodDrink_regExp:
  "simpleRegExp (nameSource ''Food+Drink'') =
     Some (matchAtoms [(CHR ''F'', Once), (CHR ''o'', Once), (CHR ''o'', Once),
                       (CHR ''d'', OneOrMore), (CHR ''D'', Once), (CHR ''r'', Once),
                       (CHR ''i'', Once), (CHR ''n'', Once), (CHR ''k'', Once)])"
  by (simp add: simpleRegExp_def nameSource_def syntaxChar_def quantifierOf_def)

lemma foodDrink_no_match:
  "\<not> matchAtoms [(CHR ''F'', Once), (CHR ''o'', Once), (CHR ''o'', Once),
                  (CHR ''d'', OneOrMore), (CHR ''D'', Once), (CHR ''r'', Once),
                  (CHR ''i'', Once), (CHR ''n'', Once), (CHR ''k'', Once)] ''Food+Drink''"
  by (simp add: sameLetter_def toLowerChar_def)

lemma foodDrink_first:
  "resolveImportCategory simpleRegExp ''u1'' foodDrinkRecord [] =
     Inr (firstFoodDrink, [firstFoodDrink])"
  by (simp add: resolveImportCategory_def foodDrinkRecord_def foodDrink_regExp findOne_def
      Category_create_def freshId_def firstFoodDrink_def secondFoodDrink_def inScope_def
      Let_def)

lemma foodDrink_second:
  "resolveImportCategory simpleRegExp ''u1'' foodDrinkRecord [firstFoodDrink] =
     Inr (secondFoodDrink, [firstFoodDrink, secondFoodDrink])"
  using foodDrink_no_match
  by (simp add: resolveImportCategory_def foodDrinkRecord_def foodDrink_regExp findOne_def
      Category_create_def freshId_def firstFoodDrink_def secondFoodDrink_def inScope_def
      Let_def)

text \<open>
  C4 at the failing input. Two imported records carry the category name
  \<open>Food+Drink\<close> and the store has no category. The first resolution creates the
  category \<open>Food+Drink\<close>. The second builds the expression \<open>^Food+Drink$\<close> again, which
  does not match the name \<open>Food+Drink\<close>, finds nothing and creates a second category of
  the same name: two categories, where the claim says one.
\<close>

theorem import_category_created_twice:
  "resolveImportCategory simpleRegExp ''u1'' foodDrinkRecord [] =
     Inr (firstFoodDrink, [firstFoodDrink])
   \<and> resolveImportCategory simpleRegExp ''u1'' foodDrinkRecord [firstFoodDrink] =
     Inr (secondFoodDrink, [firstFoodDrink, secondFoodDrink])
   \<and> firstFoodDrink \<noteq> secondFoodDrink
   \<and> is_categories (processTransactions simpleRegExp ''u1'' [foodDrinkRecord, foodDrinkRecord]
        \<lparr> is_processed = [], is_errors = [], is_categories = [] \<rparr>) =
     [firstFoodDrink, secondFoodDrink]"
  by (simp add: foodDrink_first foodDrink_second) (simp add: firstFoodDrink_def secondFoodDrink_def)

lemma imported_regExp:
  "simpleRegExp (nameSource ''Imported'') =
     Some (matchAtoms [(CHR ''I'', Once), (CHR ''m'', Once), (CHR ''p'', Once), (CHR ''o'', Once),
                       (CHR ''r'', Once), (CHR ''t'', Once), (CHR ''e'', Once), (CHR ''d'', Once)])"
  by (simp add: simpleRegExp_def nameSource_def syntaxChar_def quantifierOf_def)

lemma imported_match:
  "matchAtoms [(CHR ''I'', Once), (CHR ''m'', Once), (CHR ''p'', Once), (CHR ''o'', Once),
               (CHR ''r'', Once), (CHR ''t'', Once), (CHR ''e'', Once), (CHR ''d'', Once)] ''Imported''"
  by (simp add: sameLetter_def)

lemma resolveImportCategory_twice_example:
  "\<exists>c cats'.
     resolveImportCategory simpleRegExp ''u1'' (foodDrinkRecord \<lparr> it_categoryName := ''Imported'' \<rparr>) [] =
       Inr (c, cats')
     \<and> resolveImportCategory simpleRegExp ''u1''
         (foodDrinkRecord \<lparr> it_categoryName := ''Imported'' \<rparr>) cats' = Inr (c, cats')
     \<and> length cats' = 1"
proof -
  let ?t = "foodDrinkRecord \<lparr> it_categoryName := ''Imported'' \<rparr>"
  let ?m = "matchAtoms [(CHR ''I'', Once), (CHR ''m'', Once), (CHR ''p'', Once), (CHR ''o'', Once),
               (CHR ''r'', Once), (CHR ''t'', Once), (CHR ''e'', Once), (CHR ''d'', Once)]"
  have rx: "simpleRegExp (nameSource (it_categoryName ?t)) = Some ?m"
    by (simp add: imported_regExp)
  have self: "?m (it_categoryName ?t)"
    using imported_match by simp
  obtain c where first: "resolveImportCategory simpleRegExp ''u1'' ?t [] = Inr (c, [c])"
    by (simp add: resolveImportCategory_def imported_regExp findOne_def Category_create_def
        Let_def)
  from resolveImportCategory_twice [where rx = simpleRegExp and t = ?t and m = ?m, OF rx self first]
    first
  show ?thesis by auto
qed

lemma resolveReceiptCategory_twice_example:
  "\<exists>c cats'.
     resolveReceiptCategory simpleRegExp uploadReceiptDefaults (Some ''Salary'') None ''u1''
       [salaryCategory] = Inr (c, cats')
     \<and> resolveReceiptCategory simpleRegExp uploadReceiptDefaults (Some ''Salary'') None ''u1'' cats' =
       Inr (c, cats')
     \<and> length cats' = 2"
proof -
  have other: "''Other Expenses'' \<in> set uploadReceiptDefaults"
    by (simp add: uploadReceiptDefaults_def)
  have m: "simpleRegExp (nameSource ''Salary'') \<noteq> None"
    by (simp add: simpleRegExp_def nameSource_def syntaxChar_def quantifierOf_def)
  obtain c where first: "resolveReceiptCategory simpleRegExp uploadReceiptDefaults (Some ''Salary'')
      None ''u1'' [salaryCategory] = Inr (c, [salaryCategory, c])"
    using m
    by (auto simp: resolveReceiptCategory_def hintedCategory_def findOne_def inScope_def
        salaryCategory_def truthyString_def uploadReceiptDefaults_def Category_create_def
        Let_def split: option.splits)
  from resolveReceiptCategory_twice [OF other first] first
  show ?thesis by auto
qed

section \<open>Properties of the transaction writes\<close>

lemma createTransaction_rejects_mismatch:
  assumes "findRequestCategory rx req cats = Inr c" and "typeMismatch c (ct_type req)"
  shows "\<exists>msg. createTransaction rx req now fname cats txs fs = (BadRequest400 msg, txs, fs)"
  using assms by (simp add: createTransaction_def)

lemma createTransactionFromReceipt_by_id:
  assumes "cat_userId c = Some uid"
    and "gen (serviceOfExtracted d) d uid (cat_id c) = Inr td"
    and "tx_receipt td = Some r"
  shows "\<exists>t. createTransactionFromReceipt rx pd gen
            \<lparr> cr_userId = uid, cr_extractedData = Some d, cr_receiptInfo = Some info,
              cr_overrides = noOverrides \<lparr> ov_categoryId := Some (cat_id c) \<rparr> \<rparr> [c] txs =
            (Created201 t, [c], txs @ [t])
          \<and> tx_categoryId t = tx_categoryId td \<and> tx_type t = tx_type td"
  using assms
  by (simp add: createTransactionFromReceipt_def resolveReceiptCategory_def hintedCategory_def
      findOne_def inScope_def noOverrides_def truthyString_def attachFile_def
      applyOverrides_def Transaction_create_def Let_def)

lemma uploadReceipt_by_id:
  assumes "cat_userId c = Some uid"
    and "gen textractOcrService d uid (cat_id c) = Inr td"
    and "tx_receipt td = Some r"
  shows "\<exists>t. uploadReceipt rx gen
            \<lparr> ur_userId = uid, ur_file = info, ur_categoryName = None,
              ur_categoryId = Some (cat_id c), ur_autoProcess = None, ur_ocrEngine = None \<rparr>
            \<lparr> textract = Returned d, tesseract = x \<rparr> [c] txs =
            ([textractOcrService],
             (if ed_items d = None then ReceiptForReview (Some d) None else ReceiptFiled t d),
             [c], txs @ [t])
          \<and> tx_categoryId t = tx_categoryId td \<and> tx_type t = tx_type td"
  using assms
  by (simp add: uploadReceipt_def uploadReceipt_ocr_def autoProcessOf_def ocrEngineOf_def
      chooseService_textract runPrimary_def invoke_def truthyString_def autoFile_def
      resolveReceiptCategory_def hintedCategory_def findOne_def inScope_def attachFile_def
      Transaction_create_def Let_def)

text \<open>
  C2 at the failing input. A direct create rejects a category whose type mismatches the
  type of the transaction with a 400 response and writes nothing. The two receipt
  paths do not: given the id of an income category of the user and a generator that
  files the receipt as an expense, create-from-extracted and the auto-file after an
  upload both create the transaction under the mismatching category. (After the
  write, \<open>uploadReceipt\<close> answers 201, or the review response when the extracted data
  have no items array.)
\<close>

theorem receipt_paths_skip_type_check:
  assumes "cat_type c = ''income''" and "cat_userId c = Some uid"
    and "\<forall>svc. gen svc d uid (cat_id c) = Inr td"
    and "tx_receipt td = Some r" and "tx_type td = Some ''expense''"
    and "tx_categoryId td = cat_id c"
  shows "(\<exists>msg. createTransaction rx
            \<lparr> ct_userId = uid, ct_userCurrency = None, ct_type = Some ''expense'',
              ct_amount = tx_amount td, ct_description = None, ct_categoryId = Some (cat_id c),
              ct_categoryName = None, ct_category = None, ct_date = None,
              ct_paymentMethod = None, ct_notes = None, ct_currency = None,
              ct_receiptFileInfo = None, ct_receiptData = None \<rparr>
            now fname [c] txs fs = (BadRequest400 msg, txs, fs))
   \<and> (\<exists>t. createTransactionFromReceipt rx pd gen
            \<lparr> cr_userId = uid, cr_extractedData = Some d, cr_receiptInfo = Some info,
              cr_overrides = noOverrides \<lparr> ov_categoryId := Some (cat_id c) \<rparr> \<rparr> [c] txs =
            (Created201 t, [c], txs @ [t])
          \<and> tx_categoryId t = cat_id c \<and> typeMismatch c (tx_type t))
   \<and> (\<exists>t. uploadReceipt rx gen
            \<lparr> ur_userId = uid, ur_file = info, ur_categoryName = None,
              ur_categoryId = Some (cat_id c), ur_autoProcess = None, ur_ocrEngine = None \<rparr>
            \<lparr> textract = Returned d, tesseract = x \<rparr> [c] txs =
            ([textractOcrService],
             (if ed_items d = None then ReceiptForReview (Some d) None else ReceiptFiled t d),
             [c], txs @ [t])
          \<and> tx_categoryId t = cat_id c \<and> typeMismatch c (tx_type t))"
proof (intro conjI)
  let ?req = "\<lparr> ct_userId = uid, ct_userCurrency = None, ct_type = Some ''expense'',
              ct_amount = tx_amount td, ct_description = None, ct_categoryId = Some (cat_id c),
              ct_categoryName = None, ct_category = None, ct_date = None,
              ct_paymentMethod = None, ct_notes = None, ct_currency = None,
              ct_receiptFileInfo = None, ct_receiptData = None \<rparr>"
  have "findRequestCategory rx ?req [c] = Inr c"
    using assms(2)
    by (simp add: findRequestCategory_def providedCategoryName_def truthyString_def findOne_def
        inScope_def)
  moreover have "typeMismatch c (ct_type ?req)"
    using assms(1) by (simp add: typeMismatch_def)
  ultimately show "\<exists>msg. createTransaction rx ?req now fname [c] txs fs = (BadRequest400 msg, txs, fs)"
    by (rule createTransaction_rejects_mismatch)
next
  have g: "gen (serviceOfExtracted d) d uid (cat_id c) = Inr td"
    using assms(3) by simp
  from createTransactionFromReceipt_by_id [where gen = gen and c = c and d = d and rx = rx and pd = pd
        and info = info and txs = txs, OF assms(2) g assms(4)]
  show "\<exists>t. createTransactionFromReceipt rx pd gen
            \<lparr> cr_userId = uid, cr_extractedData = Some d, cr_receiptInfo = Some info,
              cr_overrides = noOverrides \<lparr> ov_categoryId := Some (cat_id c) \<rparr> \<rparr> [c] txs =
            (Created201 t, [c], txs @ [t])
          \<and> tx_categoryId t = cat_id c \<and> typeMismatch c (tx_type t)"
    using assms(1,5,6) by (auto simp: typeMismatch_def)
next
  have g: "gen textractOcrService d uid (cat_id c) = Inr td"
    using assms(3) by simp
  from uploadReceipt_by_id [where gen = gen and c = c and d = d and rx = rx and info = info
        and x = x and txs = txs, OF assms(2) g assms(4)]
  show "\<exists>t. uploadReceipt rx gen
            \<lparr> ur_userId = uid, ur_file = info, ur_categoryName = None,
              ur_categoryId = Some (cat_id c), ur_autoProcess = None, ur_ocrEngine = None \<rparr>
            \<lparr> textract = Returned d, tesseract = x \<rparr> [c] txs =
            ([textractOcrService],
             (if ed_items d = None then ReceiptForReview (Some d) None else ReceiptFiled t d),
             [c], txs @ [t])
          \<and> tx_categoryId t = cat_id c \<and> typeMismatch c (tx_type t)"
    using assms(1,5,6) by (auto simp: typeMismatch_def)
qed

theorem receipt_paths_skip_type_check_witness:
  "cat_type salaryCategory = ''income'' \<and> cat_userId salaryCategory = Some ''u1''
   \<and> (\<exists>t. createTransactionFromReceipt simpleRegExp isoDateOnly sampleGenerate
            \<lparr> cr_userId = ''u1'', cr_extractedData = Some sampleExtracted,
              cr_receiptInfo = Some sampleFile,
              cr_overrides = noOverrides \<lparr> ov_categoryId := Some (cat_id salaryCategory) \<rparr> \<rparr>
            [salaryCategory] [] = (Created201 t, [salaryCategory], [] @ [t])
          \<and> tx_categoryId t = cat_id salaryCategory
          \<and> typeMismatch salaryCategory (tx_type t))"
proof -
  have a: "cat_type salaryCategory = ''income''" and b: "cat_userId salaryCategory = Some ''u1''"
    by (simp_all add: salaryCategory_def)
  obtain td where td: "\<forall>svc. sampleGenerate svc sampleExtracted ''u1'' (cat_id salaryCategory) = Inr td"
    and r: "tx_receipt td \<noteq> None" and ty: "tx_type td = Some ''expense''"
    and ci: "tx_categoryId td = cat_id salaryCategory"
    by (simp add: sampleGenerate_def)
  from r obtain r0 where r0: "tx_receipt td = Some r0" by auto
  from receipt_paths_skip_type_check [where gen = sampleGenerate and c = salaryCategory
      and d = sampleExtracted and rx = simpleRegExp and pd = isoDateOnly and info = sampleFile
      and txs = "[]", OF a b td r0 ty ci]
  show ?thesis
    using a b by blast
qed

subsection \<open>Overrides\<close>

lemma attachFile_keeps:
  assumes "attachFile info d = Inr d'"
  shows "tx_amount d' = tx_amount d \<and> tx_description d' = tx_description d
         \<and> tx_date d' = tx_date d"
  using assms by (auto simp: attachFile_def split: option.splits)

lemma applyOverrides_amount:
  "tx_amount (applyOverrides pd ov d) =
     (if truthy (ov_amount ov) then parseFloatVal (ov_amount ov) else tx_amount d)"
  by (simp add: applyOverrides_def Let_def)

lemma applyOverrides_description:
  "tx_description (applyOverrides pd ov d) =
     (if truthyString (ov_description ov) then ov_description ov else tx_description d)"
  by (simp add: applyOverrides_def Let_def)

lemma applyOverrides_date:
  "tx_date (applyOverrides pd ov d) =
     (if truthyString (ov_date ov)
      then DateObject (pd (case ov_date ov of None \<Rightarrow> [] | Some s \<Rightarrow> s))
      else tx_date d)"
  by (simp add: applyOverrides_def Let_def)

lemma createTransactionFromReceipt_Created:
  assumes "createTransactionFromReceipt rx pd gen req cats txs = (Created201 t, cats', txs')"
  shows "\<exists>d (c::category) td. cr_extractedData req = Some d
           \<and> gen (serviceOfExtracted d) d (cr_userId req) (cat_id c) = Inr td
           \<and> tx_amount t = tx_amount (applyOverrides pd (cr_overrides req) td)
           \<and> tx_description t = tx_description (applyOverrides pd (cr_overrides req) td)
           \<and> tx_date t = tx_date (applyOverrides pd (cr_overrides req) td)"
proof -
  obtain d info where d: "cr_extractedData req = Some d" and i: "cr_receiptInfo req = Some info"
    using assms
    by (auto simp: createTransactionFromReceipt_def split: option.splits)
  obtain c cats1 where r: "resolveReceiptCategory rx createFromReceiptDefaults
        (ov_categoryName (cr_overrides req)) (ov_categoryId (cr_overrides req))
        (cr_userId req) cats = Inr (c, cats1)"
    using assms d i
    by (auto simp: createTransactionFromReceipt_def split: sum.splits)
  define res where "res = gen (serviceOfExtracted d) d (cr_userId req) (cat_id c)"
  have run: "(case res of
               Inl e \<Rightarrow> (ServerError500 e, cats1, txs)
             | Inr td \<Rightarrow>
                 (case attachFile info (applyOverrides pd (cr_overrides req) td) of
                    Inl e \<Rightarrow> (ServerError500 e, cats1, txs)
                  | Inr td' \<Rightarrow>
                      (let (t, txs') = Transaction_create td' txs
                       in (Created201 t, cats1, txs')))) =
             (Created201 t, cats', txs')"
    using assms d i r
    by (simp add: createTransactionFromReceipt_def res_def)
  then obtain td where g: "res = Inr td"
    by (cases res) auto
  with run have a: "attachFile info (applyOverrides pd (cr_overrides req) td) = Inr t"
    by (cases "attachFile info (applyOverrides pd (cr_overrides req) td)")
       (auto simp: Transaction_create_def)
  have k: "cr_extractedData req = Some d
           \<and> gen (serviceOfExtracted d) d (cr_userId req) (cat_id c) = Inr td
           \<and> tx_amount t = tx_amount (applyOverrides pd (cr_overrides req) td)
           \<and> tx_description t = tx_description (applyOverrides pd (cr_overrides req) td)
           \<and> tx_date t = tx_date (applyOverrides pd (cr_overrides req) td)"
    using attachFile_keeps [OF a] d g unfolding res_def by simp
  show ?thesis
    apply (rule_tac x = d in exI)
    apply (rule_tac x = c in exI)
    apply (rule_tac x = td in exI)
    using k by simp
qed

text \<open>
  C5, as the claim states it, fails. The override amount \<open>0\<close> is set, but it is falsy:
  the transaction keeps the extracted total 12.5. An empty override description is
  ignored in the same way.
\<close>

theorem falsy_override_ignored_counterexample:
  "\<exists>t. createTransactionFromReceipt simpleRegExp isoDateOnly sampleGenerate
          \<lparr> cr_userId = ''u1'', cr_extractedData = Some sampleExtracted,
            cr_receiptInfo = Some sampleFile,
            cr_overrides = noOverrides \<lparr> ov_amount := NumberVal (Num 0),
                                          ov_description := Some [] \<rparr> \<rparr> [] [] =
          (Created201 t,
           [\<lparr> cat_id = 1, cat_name = ''Other Expenses'', cat_type = ''expense'',
              cat_userId = Some ''u1'', cat_isDefault = False,
              cat_color = Some ''#6366F1'', cat_icon = Some ''shopping-bag'' \<rparr>], [t])
        \<and> tx_amount t = Num 12.5 \<and> tx_amount t \<noteq> Num 0 \<and> ed_total sampleExtracted = Some (Num 12.5)
        \<and> tx_description t = Some ''Corner Shop''"
  by (simp add: createTransactionFromReceipt_def resolveReceiptCategory_def hintedCategory_def
      findOne_def noOverrides_def truthyString_def createFromReceiptDefaults_def
      Category_create_def freshId_def sampleGenerate_def sampleExtracted_def attachFile_def
      applyOverrides_def Transaction_create_def Let_def serviceOfExtracted_def
      extractedOcrEngine_def)

text \<open>
  C5, amended. In a transaction that create-from-extracted writes, an override that is
  truthy (a number other than 0 and NaN, a non-empty string) has the last word: the
  amount is \<open>parseFloat\<close> of the override amount, the description is the override
  description, the date is the Date made from the override date. A field whose
  override is absent or falsy keeps the value that the generator gave it.
\<close>

theorem truthy_overrides_win:
  assumes "createTransactionFromReceipt rx pd gen req cats txs = (Created201 t, cats', txs')"
  shows "\<exists>d (c::category) td. cr_extractedData req = Some d
           \<and> gen (serviceOfExtracted d) d (cr_userId req) (cat_id c) = Inr td
           \<and> tx_amount t =
               (if truthy (ov_amount (cr_overrides req))
                then parseFloatVal (ov_amount (cr_overrides req)) else tx_amount td)
           \<and> tx_description t =
               (if truthyString (ov_description (cr_overrides req))
                then ov_description (cr_overrides req) else tx_description td)
           \<and> tx_date t =
               (if truthyString (ov_date (cr_overrides req))
                then DateObject (pd (case ov_date (cr_overrides req) of None \<Rightarrow> [] | Some s \<Rightarrow> s))
                else tx_date td)"
  using createTransactionFromReceipt_Created [OF assms]
  by (simp add: applyOverrides_amount applyOverrides_description applyOverrides_date)

lemma parseFloat_20: "parseFloat ''20.00'' = Num 20"
  by (simp add: parseFloat_defs)

theorem truthy_overrides_win_witness:
  "\<exists>t cats' txs'.
     createTransactionFromReceipt simpleRegExp isoDateOnly sampleGenerate
       \<lparr> cr_userId = ''u1'', cr_extractedData = Some sampleExtracted,
         cr_receiptInfo = Some sampleFile,
         cr_overrides = noOverrides \<lparr> ov_amount := StringVal ''20.00'',
                                       ov_description := Some ''Lunch'',
                                       ov_date := Some ''2024-01-06'' \<rparr> \<rparr> [] [] =
       (Created201 t, cats', txs')
     \<and> tx_amount t = Num 20 \<and> tx_description t = Some ''Lunch''
     \<and> tx_date t = DateObject (Some 1704499200000)"
proof -
  let ?req = "\<lparr> cr_userId = ''u1'', cr_extractedData = Some sampleExtracted,
         cr_receiptInfo = Some sampleFile,
         cr_overrides = noOverrides \<lparr> ov_amount := StringVal ''20.00'',
                                       ov_description := Some ''Lunch'',
                                       ov_date := Some ''2024-01-06'' \<rparr> \<rparr>"
  obtain t cats' txs' where run:
    "createTransactionFromReceipt simpleRegExp isoDateOnly sampleGenerate ?req [] [] =
       (Created201 t, cats', txs')"
    by (simp add: createTransactionFromReceipt_def resolveReceiptCategory_def hintedCategory_def
        findOne_def noOverrides_def truthyString_def createFromReceiptDefaults_def
        Category_create_def sampleGenerate_def attachFile_def
        applyOverrides_def Transaction_create_def Let_def)
  from truthy_overrides_win [OF run]
  have "tx_amount t = Num 20 \<and> tx_description t = Some ''Lunch''
        \<and> tx_date t = DateObject (Some 1704499200000)"
    by (auto simp: noOverrides_def truthyString_def parseFloat_20 isoDateOnly_jan6)
  with run show ?thesis by blast
qed

subsection \<open>Receipt files\<close>

lemma handleReceipt_failed:
  assumes "ct_receiptFileInfo req = Some info" and "ct_receiptData req = Some rd"
    and "promoteReceiptFile fs fname info rd = Inl e"
  shows "handleReceipt req fname fs d = (d, fs)"
  using assms by (simp add: handleReceipt_def)

lemma handleReceipt_moved:
  assumes "ct_receiptFileInfo req = Some info" and "ct_receiptData req = Some rd"
    and "promoteReceiptFile fs fname info rd = Inr (r, fs')"
  shows "handleReceipt req fname fs d = (d \<lparr> tx_receipt := Some r \<rparr>, fs')"
  using assms by (simp add: handleReceipt_def)

lemma findRequestCategory_Inl:
  "findRequestCategory rx req cats = Inl response \<Longrightarrow> response \<noteq> Created201 t"
  by (auto simp: findRequestCategory_def split: if_splits option.splits)

lemma createTransaction_Created:
  assumes "createTransaction rx req now fname cats txs fs = (Created201 t, txs', fs')"
  shows "\<exists>c. findRequestCategory rx req cats = Inr c \<and> \<not> typeMismatch c (ct_type req)
             \<and> handleReceipt req fname fs (baseTransactionData req c now) = (t, fs')
             \<and> txs' = txs @ [t]"
  using assms
  by (auto simp: createTransaction_def Transaction_create_def Let_def
      split: sum.splits if_splits prod.splits dest: findRequestCategory_Inl)

lemma createTransaction_run:
  assumes "findRequestCategory rx req cats = Inr c" and "\<not> typeMismatch c (ct_type req)"
    and "handleReceipt req fname fs (baseTransactionData req c now) = (t, fs')"
  shows "createTransaction rx req now fname cats txs fs = (Created201 t, txs @ [t], fs')"
  using assms by (simp add: createTransaction_def Transaction_create_def)

text \<open>
  C8. Take a create request with receipt file info and receipt data that succeeds when
  the move of the temp file succeeds: it writes a transaction \<open>t\<close> with the receipt. On
  a file system where the move fails, the same request still writes a transaction
  and answers 201: it is \<open>t\<close> without the receipt, every other field equal, and the
  file system is left as it was.
\<close>

theorem move_failure_does_not_block_write:
  assumes info: "ct_receiptFileInfo req = Some info" and rd: "ct_receiptData req = Some rd"
    and moved: "promoteReceiptFile fsOk fname info rd = Inr (r, fsOk')"
    and created: "createTransaction rx req now fname cats txs fsOk = (Created201 t, txs', fs')"
    and failed: "promoteReceiptFile fsBad fname info rd = Inl e"
  shows "tx_receipt t = Some r
   \<and> createTransaction rx req now fname cats txs fsBad =
        (Created201 (t \<lparr> tx_receipt := None \<rparr>), txs @ [t \<lparr> tx_receipt := None \<rparr>], fsBad)"
proof -
  from createTransaction_Created [OF created] obtain c where
    c: "findRequestCategory rx req cats = Inr c" and ty: "\<not> typeMismatch c (ct_type req)"
    and h: "handleReceipt req fname fsOk (baseTransactionData req c now) = (t, fs')"
    by blast
  from h handleReceipt_moved [OF info rd moved, of "baseTransactionData req c now"]
  have t: "t = baseTransactionData req c now \<lparr> tx_receipt := Some r \<rparr>"
    by simp
  then have base: "t \<lparr> tx_receipt := None \<rparr> = baseTransactionData req c now"
    by (simp add: baseTransactionData_def)
  from handleReceipt_failed [OF info rd failed, of "baseTransactionData req c now"] base
  have "handleReceipt req fname fsBad (baseTransactionData req c now) =
          (t \<lparr> tx_receipt := None \<rparr>, fsBad)"
    by simp
  from createTransaction_run [OF c ty this] t show ?thesis
    by simp
qed

lemma sample_permanentDir:
  "path_join [''srv'', ''uploads'', ''temp-receipts''] [''..'', ''receipts''] =
     [''srv'', ''uploads'', ''receipts'']"
  by (simp add: path_join_def)

lemma sample_promote_empty:
  "promoteReceiptFile emptyFs ''receipt-3-4.png'' sampleTempInfo sampleExtracted = Inl ENOENT"
  by (simp add: promoteReceiptFile_def sampleTempInfo_def path_dirname_def sample_permanentDir
      ensureDir_def fileOnPath_def emptyFs_def renameSync_def Let_def)

lemma sample_promote_temp:
  "\<exists>r fs'. promoteReceiptFile tempFs ''receipt-3-4.png'' sampleTempInfo sampleExtracted = Inr (r, fs')"
  by (simp add: promoteReceiptFile_def sampleTempInfo_def path_dirname_def sample_permanentDir
      ensureDir_def fileOnPath_def emptyFs_def tempFs_def renameSync_def Let_def)

lemma sample_findRequestCategory:
  "findRequestCategory simpleRegExp sampleCreate [groceriesCategory] = Inr groceriesCategory"
  by (simp add: findRequestCategory_def sampleCreate_def providedCategoryName_def
      truthyString_def findOne_def groceriesCategory_def inScope_def)

theorem move_failure_does_not_block_write_witness:
  "\<exists>t r fs'. createTransaction simpleRegExp sampleCreate 1704412800000 ''receipt-3-4.png''
            [groceriesCategory] [] tempFs = (Created201 t, [t], fs')
        \<and> tx_receipt t = Some r
        \<and> createTransaction simpleRegExp sampleCreate 1704412800000 ''receipt-3-4.png''
            [groceriesCategory] [] emptyFs =
          (Created201 (t \<lparr> tx_receipt := None \<rparr>), [] @ [t \<lparr> tx_receipt := None \<rparr>], emptyFs)"
proof -
  have info: "ct_receiptFileInfo sampleCreate = Some sampleTempInfo"
    and rd: "ct_receiptData sampleCreate = Some sampleExtracted"
    by (simp_all add: sampleCreate_def)
  from sample_promote_temp obtain r fs' where
    moved: "promoteReceiptFile tempFs ''receipt-3-4.png'' sampleTempInfo sampleExtracted = Inr (r, fs')"
    by blast
  have ty: "\<not> typeMismatch groceriesCategory (ct_type sampleCreate)"
    by (simp add: typeMismatch_def groceriesCategory_def sampleCreate_def)
  let ?t = "baseTransactionData sampleCreate groceriesCategory 1704412800000 \<lparr> tx_receipt := Some r \<rparr>"
  have created: "createTransaction simpleRegExp sampleCreate 1704412800000 ''receipt-3-4.png''
            [groceriesCategory] [] tempFs = (Created201 ?t, [] @ [?t], fs')"
    by (rule createTransaction_run [OF sample_findRequestCategory ty
          handleReceipt_moved [OF info rd moved]])
  from move_failure_does_not_block_write [OF info rd moved created sample_promote_empty]
  show ?thesis
    using created by auto
qed

subsection \<open>Promoting a temp receipt twice\<close>

lemma normalizeAcc_clean:
  assumes "\<forall>s \<in> set xs. s \<noteq> ''..'' \<and> s \<noteq> ''.'' \<and> s \<noteq> []"
  shows "normalizeAcc acc (xs @ rest) = normalizeAcc (rev xs @ acc) rest"
  using assms by (induction xs arbitrary: acc) auto

lemma permanentDir_of_temp:
  assumes "\<forall>s \<in> set dir. s \<noteq> ''..'' \<and> s \<noteq> ''.'' \<and> s \<noteq> []"
  shows "path_join (path_dirname (dir @ [''temp-receipts'', name])) [''..'', ''receipts''] =
           dir @ [''receipts'']"
proof -
  have "path_dirname (dir @ [''temp-receipts'', name]) = dir @ [''temp-receipts'']"
    by (simp add: path_dirname_def butlast_append)
  then have "path_join (path_dirname (dir @ [''temp-receipts'', name])) [''..'', ''receipts''] =
          normalizeAcc [] (dir @ [''temp-receipts'', ''..'', ''receipts''])"
    by (simp add: path_join_def)
  also have "\<dots> = normalizeAcc (rev dir @ []) [''temp-receipts'', ''..'', ''receipts'']"
    using assms by (rule normalizeAcc_clean)
  also have "\<dots> = dir @ [''receipts'']"
    by simp
  finally show ?thesis .
qed

lemma fileOnPath_iff:
  "fileOnPath fs p \<longleftrightarrow> (\<exists>n. 1 \<le> n \<and> n \<le> length p \<and> fs (take n p) \<noteq> None)"
  by (auto simp: fileOnPath_def list_ex_iff)

lemma promoteReceiptFile_Inr:
  assumes "promoteReceiptFile fs fname info rd = Inr (r, fs')"
  shows "\<exists>content. fs (fi_tempPath info) = Some content
           \<and> \<not> fileOnPath fs (path_join (path_dirname (fi_tempPath info)) [''..'', ''receipts''])
           \<and> fs' = (fs (fi_tempPath info := None))
                     (path_join (path_dirname (fi_tempPath info)) [''..'', ''receipts''] @ [fname]
                        := Some content)"
  using assms
  by (auto simp: promoteReceiptFile_def ensureDir_def renameSync_def Let_def
      split: if_splits option.splits sum.splits)

text \<open>
  C9. A temp receipt lies in the directory \<open>temp-receipts\<close>, as the upload puts it, and
  its first promotion has succeeded. Then a second promotion of the same handle, under
  whatever new name, throws \<open>ENOENT\<close>: the temp file is gone. Nothing is moved or
  overwritten: \<open>createTransaction\<close> catches the error, leaves the file system as it is
  and writes the transaction without a receipt, and the file that the first promotion
  produced still has the content of the temp file.
\<close>

theorem second_promotion_fails:
  assumes clean: "\<forall>s \<in> set dir. s \<noteq> ''..'' \<and> s \<noteq> ''.'' \<and> s \<noteq> []"
    and temp: "fi_tempPath info = dir @ [''temp-receipts'', name]"
    and content: "fs (fi_tempPath info) = Some content"
    and first: "promoteReceiptFile fs fname1 info rd = Inr (r1, fs1)"
    and req: "ct_receiptFileInfo req = Some info" "ct_receiptData req = Some rd2"
  shows "promoteReceiptFile fs1 fname2 info rd2 = Inl ENOENT
   \<and> fs1 (dir @ [''receipts'', fname1]) = Some content
   \<and> r_path r1 = pathString (dir @ [''receipts'', fname1])
   \<and> handleReceipt req fname2 fs1 d = (d, fs1)"
proof -
  let ?pdir = "dir @ [''receipts'']"
  have pdir: "path_join (path_dirname (fi_tempPath info)) [''..'', ''receipts''] = ?pdir"
    using permanentDir_of_temp [OF clean] temp by simp
  from promoteReceiptFile_Inr [OF first] content pdir
  have free: "\<not> fileOnPath fs ?pdir"
    and fs1: "fs1 = (fs (fi_tempPath info := None)) (?pdir @ [fname1] := Some content)"
    by auto
  have ne: "?pdir @ [fname1] \<noteq> fi_tempPath info"
    using temp by simp
  then have gone: "fs1 (fi_tempPath info) = None"
    using fs1 by simp
  have kept: "fs1 (dir @ [''receipts'', fname1]) = Some content"
    using fs1 by simp
  have path: "r_path r1 = pathString (dir @ [''receipts'', fname1])"
    using first pdir
    by (auto simp: promoteReceiptFile_def Let_def split: sum.splits)
  have free1: "\<not> fileOnPath fs1 ?pdir"
  proof
    assume "fileOnPath fs1 ?pdir"
    then obtain n where n: "1 \<le> n" "n \<le> length ?pdir" "fs1 (take n ?pdir) \<noteq> None"
      by (auto simp: fileOnPath_iff)
    have "take n ?pdir \<noteq> ?pdir @ [fname1]"
    proof
      assume "take n ?pdir = ?pdir @ [fname1]"
      then have "length (take n ?pdir) = length (?pdir @ [fname1])"
        by (rule arg_cong)
      then show False
        by simp
    qed
    with n(3) fs1 have "fs (take n ?pdir) \<noteq> None"
      by (auto split: if_splits)
    with n(1,2) free show False
      by (auto simp: fileOnPath_iff)
  qed
  have second: "promoteReceiptFile fs1 fname2 info rd2 = Inl ENOENT"
    using pdir free1 gone
    by (simp add: promoteReceiptFile_def ensureDir_def renameSync_def Let_def)
  from handleReceipt_failed [OF req second, of d] second kept path show ?thesis
    by simp
qed

theorem second_promotion_fails_witness:
  "\<exists>r1 fs1.
     promoteReceiptFile tempFs ''receipt-3-4.png'' sampleTempInfo sampleExtracted = Inr (r1, fs1)
     \<and> promoteReceiptFile fs1 ''receipt-5-6.png'' sampleTempInfo sampleExtracted = Inl ENOENT
     \<and> fs1 ([''srv'', ''uploads''] @ [''receipts'', ''receipt-3-4.png'']) = Some ''PNG''
     \<and> handleReceipt sampleCreate ''receipt-5-6.png'' fs1
          (baseTransactionData sampleCreate groceriesCategory 1704412800000) =
        (baseTransactionData sampleCreate groceriesCategory 1704412800000, fs1)"
proof -
  from sample_promote_temp obtain r1 fs1 where
    first: "promoteReceiptFile tempFs ''receipt-3-4.png'' sampleTempInfo sampleExtracted = Inr (r1, fs1)"
    by blast
  have clean: "\<forall>s \<in> set [''srv'', ''uploads'']. s \<noteq> ''..'' \<and> s \<noteq> ''.'' \<and> s \<noteq> []"
    by simp
  have temp: "fi_tempPath sampleTempInfo = [''srv'', ''uploads''] @ [''temp-receipts'', ''temp-receipt-1-2.png'']"
    by (simp add: sampleTempInfo_def)
  have content: "tempFs (fi_tempPath sampleTempInfo) = Some ''PNG''"
    by (simp add: sampleTempInfo_def tempFs_def)
  have req: "ct_receiptFileInfo sampleCreate = Some sampleTempInfo"
    "ct_receiptData sampleCreate = Some sampleExtracted"
    by (simp_all add: sampleCreate_def)
  from second_promotion_fails [OF clean temp content first req,
      of "''receipt-5-6.png''" "baseTransactionData sampleCreate groceriesCategory 1704412800000"]
    first
  show ?thesis by blast
qed

end
